theory Spec2Isabelle
  imports Complex_Main
begin

section \<open>Length resolver\<close>

text \<open>
  The classifier's two length vectors have one slot per signed length in
  \<open>[-VariantLength.max, VariantLength.max]\<close>; the source addresses the slot of the signed
  length \<open>k\<close> as \<^verbatim>\<open>variant_length_probabilities[k + VariantLength.index_offset]\<close>.
  The module that declares \<open>VariantLength\<close> is not part of the sources at hand, so a vector
  is modelled by its signed view: \<open>v k\<close> is the entry read at \<open>k + index_offset\<close>, and
  \<open>VariantLength.max\<close> is the parameter \<open>n\<close> of every resolver.  Probabilities are
  Python floats; they are modelled as reals, of which the resolvers only use the product
  and the order.
\<close>

type_synonym length_probs = "int \<Rightarrow> real"

type_synonym length_tuple = "int \<times> int \<times> real"

text \<open>Loop bodies of \<^verbatim>\<open>insertion_length_tuple_from\<close>, one per branch.\<close>

definition hetero_Ins_body :: "length_probs \<Rightarrow> length_probs \<Rightarrow> nat \<Rightarrow> int \<times> real \<Rightarrow> int \<times> real" where
  "hetero_Ins_body v1 v2 i st =
     (case st of (variant_length, maximum_probability) \<Rightarrow>
        let temp_probability = v1 0 * v2 (int i);
            st' = (if temp_probability > maximum_probability
                   then (int i, temp_probability) else (variant_length, maximum_probability));
            temp_probability = v1 (int i) * v2 0
        in (if temp_probability > snd st' then (int i, temp_probability) else st'))"

definition hetero_InsIns_body ::
  "length_probs \<Rightarrow> length_probs \<Rightarrow> nat \<Rightarrow> nat \<Rightarrow> (int \<times> int) \<times> real \<Rightarrow> (int \<times> int) \<times> real" where
  "hetero_InsIns_body v1 v2 i j st =
     (case st of (lengths, maximum_probability) \<Rightarrow>
        let temp_probability = v1 (int i) * v2 (int j)
        in if temp_probability > maximum_probability
           then ((if i \<le> j then (int i, int j) else (int j, int i)), temp_probability)
           else (lengths, maximum_probability))"

definition homo_Ins_body :: "length_probs \<Rightarrow> length_probs \<Rightarrow> nat \<Rightarrow> int \<times> real \<Rightarrow> int \<times> real" where
  "homo_Ins_body v1 v2 i st =
     (case st of (variant_length, maximum_probability) \<Rightarrow>
        let temp_probability = v1 (int i) * v2 (int i)
        in if temp_probability \<le> maximum_probability
           then (variant_length, maximum_probability)
           else (int i, temp_probability))"

definition insertion_length_tuple_from ::
  "nat \<Rightarrow> length_probs \<Rightarrow> length_probs \<Rightarrow> bool \<Rightarrow> bool \<Rightarrow> length_tuple" where
  "insertion_length_tuple_from n v1 v2 is_hetero_Ins is_hetero_InsIns =
     (if is_hetero_Ins then
        (case fold (hetero_Ins_body v1 v2) [1..<Suc n] (0, 0) of
           (variant_length, maximum_probability) \<Rightarrow> (0, variant_length, maximum_probability))
      else if is_hetero_InsIns then
        (case fold (\<lambda>i. fold (hetero_InsIns_body v1 v2 i) [1..<Suc n]) [1..<Suc n] ((0, 0), 0) of
           ((variant_length_1, variant_length_2), maximum_probability) \<Rightarrow>
             (variant_length_1, variant_length_2, maximum_probability))
      else
        (case fold (homo_Ins_body v1 v2) [1..<Suc n] (0, 0) of
           (variant_length, maximum_probability) \<Rightarrow>
             (variant_length, variant_length, maximum_probability)))"

text \<open>Loop bodies of \<^verbatim>\<open>deletion_length_tuple_from\<close>: the same scans at the negated lengths,
  except that the deletion/deletion scan skips \<open>i = j\<close>.\<close>

definition hetero_Del_body :: "length_probs \<Rightarrow> length_probs \<Rightarrow> nat \<Rightarrow> int \<times> real \<Rightarrow> int \<times> real" where
  "hetero_Del_body v1 v2 i st =
     (case st of (variant_length, maximum_probability) \<Rightarrow>
        let temp_probability = v1 0 * v2 (- int i);
            st' = (if temp_probability > maximum_probability
                   then (int i, temp_probability) else (variant_length, maximum_probability));
            temp_probability = v1 (- int i) * v2 0
        in (if temp_probability > snd st' then (int i, temp_probability) else st'))"

definition hetero_DelDel_body ::
  "length_probs \<Rightarrow> length_probs \<Rightarrow> nat \<Rightarrow> nat \<Rightarrow> (int \<times> int) \<times> real \<Rightarrow> (int \<times> int) \<times> real" where
  "hetero_DelDel_body v1 v2 i j st =
     (if i = j then st
      else (case st of (lengths, maximum_probability) \<Rightarrow>
        let temp_probability = v1 (- int i) * v2 (- int j)
        in if temp_probability > maximum_probability
           then ((if i \<le> j then (int i, int j) else (int j, int i)), temp_probability)
           else (lengths, maximum_probability)))"

definition homo_Del_body :: "length_probs \<Rightarrow> length_probs \<Rightarrow> nat \<Rightarrow> int \<times> real \<Rightarrow> int \<times> real" where
  "homo_Del_body v1 v2 i st =
     (case st of (variant_length, maximum_probability) \<Rightarrow>
        let temp_probability = v1 (- int i) * v2 (- int i)
        in if temp_probability \<le> maximum_probability
           then (variant_length, maximum_probability)
           else (int i, temp_probability))"

definition deletion_length_tuple_from ::
  "nat \<Rightarrow> length_probs \<Rightarrow> length_probs \<Rightarrow> bool \<Rightarrow> bool \<Rightarrow> length_tuple" where
  "deletion_length_tuple_from n v1 v2 is_hetero_Del is_hetero_DelDel =
     (if is_hetero_Del then
        (case fold (hetero_Del_body v1 v2) [1..<Suc n] (0, 0) of
           (variant_length, maximum_probability) \<Rightarrow> (0, variant_length, maximum_probability))
      else if is_hetero_DelDel then
        (case fold (\<lambda>i. fold (hetero_DelDel_body v1 v2 i) [1..<Suc n]) [1..<Suc n] ((0, 0), 0) of
           ((variant_length_1, variant_length_2), maximum_probability) \<Rightarrow>
             (variant_length_1, variant_length_2, maximum_probability))
      else
        (case fold (homo_Del_body v1 v2) [1..<Suc n] (0, 0) of
           (variant_length, maximum_probability) \<Rightarrow>
             (variant_length, variant_length, maximum_probability)))"

text \<open>\<^verbatim>\<open>insertion_and_deletion_length_tuple_from\<close>: slot 1 is the deletion length, slot 2
  the insertion length; both start at \<open>-1\<close>.\<close>

definition hetero_InsDel_body ::
  "length_probs \<Rightarrow> length_probs \<Rightarrow> nat \<Rightarrow> nat \<Rightarrow> (int \<times> int) \<times> real \<Rightarrow> (int \<times> int) \<times> real" where
  "hetero_InsDel_body v1 v2 i j st =
     (case st of (lengths, maximum_probability) \<Rightarrow>
        let temp_probability = v1 (int i) * v2 (- int j);
            st' = (if temp_probability > maximum_probability
                   then ((int j, int i), temp_probability) else (lengths, maximum_probability));
            temp_probability = v1 (- int i) * v2 (int j)
        in (if temp_probability > snd st' then ((int i, int j), temp_probability) else st'))"

definition insertion_and_deletion_length_tuple_from ::
  "nat \<Rightarrow> length_probs \<Rightarrow> length_probs \<Rightarrow> length_tuple" where
  "insertion_and_deletion_length_tuple_from n v1 v2 =
     (case fold (\<lambda>i. fold (hetero_InsDel_body v1 v2 i) [1..<Suc n]) [1..<Suc n] ((- 1, - 1), 0) of
        ((variant_length_1, variant_length_2), maximum_probability) \<Rightarrow>
          (variant_length_1, variant_length_2, maximum_probability))"

subsection \<open>The resolver's contract, as the specification words it\<close>

text \<open>
  The specification describes one resolver \<open>resolve(lenProbs1, lenProbs2, shape)\<close>.
  The shapes are the seven ways in which the record composer calls the three source
  functions above.
\<close>

datatype indel = Insertion | Deletion

datatype shape =
    Homozygous indel
  | Hetero_single indel
  | Hetero_double indel
  | Hetero_mixed

definition resolve :: "nat \<Rightarrow> length_probs \<Rightarrow> length_probs \<Rightarrow> shape \<Rightarrow> length_tuple" where
  "resolve n v1 v2 sh =
     (case sh of
        Homozygous Insertion \<Rightarrow> insertion_length_tuple_from n v1 v2 False False
      | Homozygous Deletion \<Rightarrow> deletion_length_tuple_from n v1 v2 False False
      | Hetero_single Insertion \<Rightarrow> insertion_length_tuple_from n v1 v2 True False
      | Hetero_single Deletion \<Rightarrow> deletion_length_tuple_from n v1 v2 True False
      | Hetero_double Insertion \<Rightarrow> insertion_length_tuple_from n v1 v2 False True
      | Hetero_double Deletion \<Rightarrow> deletion_length_tuple_from n v1 v2 False True
      | Hetero_mixed \<Rightarrow> insertion_and_deletion_length_tuple_from n v1 v2)"

definition signed :: "indel \<Rightarrow> nat \<Rightarrow> int" where
  "signed k i = (case k of Insertion \<Rightarrow> int i | Deletion \<Rightarrow> - int i)"

text \<open>
  The search space of a shape: the candidates \<open>((length1, length2), score)\<close> in the order
  of the scan.  \<open>skip_equal k\<close> tells whether the double scan of kind \<open>k\<close> leaves out the
  pairs \<open>i = j\<close>.
\<close>

definition search_space ::
  "(indel \<Rightarrow> bool) \<Rightarrow> nat \<Rightarrow> length_probs \<Rightarrow> length_probs \<Rightarrow> shape \<Rightarrow> ((int \<times> int) \<times> real) list" where
  "search_space skip_equal n v1 v2 sh =
     (case sh of
        Homozygous k \<Rightarrow>
          map (\<lambda>i. ((int i, int i), v1 (signed k i) * v2 (signed k i))) [1..<Suc n]
      | Hetero_single k \<Rightarrow>
          concat (map (\<lambda>i. [((0, int i), v1 0 * v2 (signed k i)),
                             ((0, int i), v1 (signed k i) * v2 0)]) [1..<Suc n])
      | Hetero_double k \<Rightarrow>
          concat (map (\<lambda>i.
            map (\<lambda>j. ((int (min i j), int (max i j)), v1 (signed k i) * v2 (signed k j)))
              (filter (\<lambda>j. \<not> (skip_equal k \<and> i = j)) [1..<Suc n])) [1..<Suc n])
      | Hetero_mixed \<Rightarrow>
          concat (map (\<lambda>i. concat (map (\<lambda>j.
            [((int j, int i), v1 (int i) * v2 (- int j)),
             ((int i, int j), v1 (- int i) * v2 (int j))]) [1..<Suc n])) [1..<Suc n]))"

text \<open>The specification's search space: both double scans range over \<open>i \<noteq> j\<close>.\<close>

definition spec_search_space ::
  "nat \<Rightarrow> length_probs \<Rightarrow> length_probs \<Rightarrow> shape \<Rightarrow> ((int \<times> int) \<times> real) list" where
  "spec_search_space = search_space (\<lambda>k. True)"

text \<open>The search space the source scans: only the deletion/deletion scan skips \<open>i = j\<close>.\<close>

definition scanned_search_space ::
  "nat \<Rightarrow> length_probs \<Rightarrow> length_probs \<Rightarrow> shape \<Rightarrow> ((int \<times> int) \<times> real) list" where
  "scanned_search_space = search_space (\<lambda>k. k = Deletion)"

text \<open>The lengths a resolver starts from, and keeps when no score exceeds zero.\<close>

definition initial_lengths :: "shape \<Rightarrow> int \<times> int" where
  "initial_lengths sh = (case sh of Hetero_mixed \<Rightarrow> (- 1, - 1) | _ \<Rightarrow> (0, 0))"

text \<open>A scan that keeps the first strict maximum, the common form of all seven loops.\<close>

fun strict_max_scan :: "('c \<times> real) list \<Rightarrow> 'c \<times> real \<Rightarrow> 'c \<times> real" where
  "strict_max_scan [] st = st"
| "strict_max_scan ((c, t) # xs) st = strict_max_scan xs (if t > snd st then (c, t) else st)"

section \<open>Enumerations, constants and small helpers\<close>

text \<open>
  \<^verbatim>\<open>GT21\<close>, \<^verbatim>\<open>Genotype\<close>, \<^verbatim>\<open>VariantLength\<close> and the label functions come from a module
  \<^verbatim>\<open>utils\<close> that is not among the sources at hand; \<^verbatim>\<open>flankingBaseNum\<close> comes from
  \<^verbatim>\<open>param\<close>.  The enumerations are declared here with the members the source names.
  The probability arrays of the classifier are indexed by these members only, so they
  are modelled as functions on the enumeration.
\<close>

datatype GT21 =
    GT21_AA | GT21_AC | GT21_AG | GT21_AT | GT21_CC | GT21_CG | GT21_CT | GT21_GG | GT21_GT | GT21_TT
  | GT21_DelDel | GT21_ADel | GT21_CDel | GT21_GDel | GT21_TDel
  | GT21_InsIns | GT21_AIns | GT21_CIns | GT21_GIns | GT21_TIns
  | GT21_InsDel

datatype Genotype = homo_reference | homo_variant | hetero_variant | hetero_variant_multi | unknown

datatype Channel = Channel_reference | Channel_insert | Channel_delete | Channel_SNP

datatype py_error =
  IndexError | KeyError | UnboundLocalError | ValueError | ZeroDivisionError | StopIteration

type_synonym gt21_probs = "GT21 \<Rightarrow> real"
type_synonym genotype_probs = "Genotype \<Rightarrow> real"

text \<open>
  The evidence tensor \<^verbatim>\<open>x[position, row, channel]\<close> has \<open>2 * flanking_base_number + 1\<close>
  positions and eight rows (the source reads the rows \<open>base\<close> and \<open>base + 4\<close>, one per
  strand); its entries are floats, modelled as reals.
\<close>

type_synonym tensor = "nat \<Rightarrow> nat \<Rightarrow> Channel \<Rightarrow> real"

definition matrix_rows :: nat where
  "matrix_rows = 8"

text \<open>\<^verbatim>\<open>sum(x[position, :, channel])\<close>\<close>

definition row_sum :: "tensor \<Rightarrow> nat \<Rightarrow> Channel \<Rightarrow> real" where
  "row_sum x position ch = (\<Sum>r\<leftarrow>[0..<matrix_rows]. x position r ch)"

text \<open>The configuration constants that the absent modules define.\<close>

record constants =
  VariantLength_max :: nat
  flanking_base_number :: nat

definition minimum_variant_length_that_need_infer :: "constants \<Rightarrow> int" where
  "minimum_variant_length_that_need_infer k = int (VariantLength_max k)"

definition maximum_variant_length_that_need_infer :: int where
  "maximum_variant_length_that_need_infer = 50"

definition inferred_indel_length_minimum_allele_frequency :: real where
  "inferred_indel_length_minimum_allele_frequency = 0.125"

definition num2base :: "nat \<Rightarrow> char" where
  "num2base i = ''ACGT'' ! i"

definition base2num :: "char \<Rightarrow> nat option" where
  "base2num c =
     (if c = CHR ''A'' then Some 0 else if c = CHR ''C'' then Some 1
      else if c = CHR ''G'' then Some 2 else if c = CHR ''T'' then Some 3 else None)"

text \<open>\<^verbatim>\<open>np.argmax\<close>: the index of the first largest entry.\<close>

definition argmax :: "real list \<Rightarrow> nat" where
  "argmax xs = fst (strict_max_scan (zip [1..<length xs] (tl xs)) (0, hd xs))"

text \<open>Modelled from the spec: \<^verbatim>\<open>utils.base_change_label_from\<close>, the label of a base-change
  class, which is the member's name.\<close>

definition base_change_label_from :: "GT21 \<Rightarrow> string" where
  "base_change_label_from g =
     (case g of
        GT21_AA \<Rightarrow> ''AA'' | GT21_AC \<Rightarrow> ''AC'' | GT21_AG \<Rightarrow> ''AG'' | GT21_AT \<Rightarrow> ''AT''
      | GT21_CC \<Rightarrow> ''CC'' | GT21_CG \<Rightarrow> ''CG'' | GT21_CT \<Rightarrow> ''CT'' | GT21_GG \<Rightarrow> ''GG''
      | GT21_GT \<Rightarrow> ''GT'' | GT21_TT \<Rightarrow> ''TT''
      | GT21_DelDel \<Rightarrow> ''DelDel'' | GT21_ADel \<Rightarrow> ''ADel'' | GT21_CDel \<Rightarrow> ''CDel''
      | GT21_GDel \<Rightarrow> ''GDel'' | GT21_TDel \<Rightarrow> ''TDel''
      | GT21_InsIns \<Rightarrow> ''InsIns'' | GT21_AIns \<Rightarrow> ''AIns'' | GT21_CIns \<Rightarrow> ''CIns''
      | GT21_GIns \<Rightarrow> ''GIns'' | GT21_TIns \<Rightarrow> ''TIns''
      | GT21_InsDel \<Rightarrow> ''InsDel'')"

text \<open>Modelled from the spec: \<^verbatim>\<open>utils.genotype_string_from\<close>, the genotype strings
  \<open>0/0\<close>, \<open>1/1\<close>, \<open>0/1\<close> and \<open>1/2\<close> of the record composer's table.\<close>

definition genotype_string_from :: "Genotype \<Rightarrow> string" where
  "genotype_string_from g =
     (case g of
        homo_reference \<Rightarrow> ''0/0'' | homo_variant \<Rightarrow> ''1/1''
      | hetero_variant \<Rightarrow> ''0/1'' | hetero_variant_multi \<Rightarrow> ''1/2'' | unknown \<Rightarrow> '''')"

text \<open>
  The helpers of \<^verbatim>\<open>utils\<close> that turn allele strings back into a base-change class are
  parameters of the model, taken as total functions.
\<close>

record label_functions =
  base_change_enum_from :: "string \<Rightarrow> GT21"
  partial_label_from :: "string \<Rightarrow> string \<Rightarrow> string"
  mix_two_partial_labels :: "string \<Rightarrow> string \<Rightarrow> string"

subsection \<open>Argmax bases\<close>

definition homo_SNP_bases_from :: "gt21_probs \<Rightarrow> char \<times> char" where
  "homo_SNP_bases_from base_change_probabilities =
     (let output_bases_probabilities =
            map base_change_probabilities [GT21_AA, GT21_CC, GT21_GG, GT21_TT];
          output_bases =
            map base_change_label_from [GT21_AA, GT21_CC, GT21_GG, GT21_TT]
              ! argmax output_bases_probabilities
      in (output_bases ! 0, output_bases ! 1))"

definition hetero_SNP_bases_from :: "gt21_probs \<Rightarrow> char \<times> char" where
  "hetero_SNP_bases_from base_change_probabilities =
     (let output_bases_probabilities =
            map base_change_probabilities [GT21_AC, GT21_AG, GT21_AT, GT21_CG, GT21_CT, GT21_GT];
          output_bases =
            map base_change_label_from [GT21_AC, GT21_AG, GT21_AT, GT21_CG, GT21_CT, GT21_GT]
              ! argmax output_bases_probabilities
      in (output_bases ! 0, output_bases ! 1))"

definition hetero_insert_base_from :: "gt21_probs \<Rightarrow> char" where
  "hetero_insert_base_from base_change_probabilities =
     (let output_bases_probabilities =
            map base_change_probabilities [GT21_AIns, GT21_CIns, GT21_GIns, GT21_TIns];
          output_bases =
            map base_change_label_from [GT21_AIns, GT21_CIns, GT21_GIns, GT21_TIns]
              ! argmax output_bases_probabilities
      in output_bases ! 0)"

definition hetero_delete_base_from :: "gt21_probs \<Rightarrow> char" where
  "hetero_delete_base_from base_change_probabilities =
     (let output_bases_probabilities =
            map base_change_probabilities [GT21_ADel, GT21_CDel, GT21_GDel, GT21_TDel];
          output_bases =
            map base_change_label_from [GT21_ADel, GT21_CDel, GT21_GDel, GT21_TDel]
              ! argmax output_bases_probabilities
      in output_bases ! 0)"

definition filtration_value_from :: "int option \<Rightarrow> int \<Rightarrow> string" where
  "filtration_value_from quality_score_for_pass quality_score =
     (case quality_score_for_pass of
        None \<Rightarrow> ''.''
      | Some q \<Rightarrow> if quality_score \<ge> q then ''PASS'' else ''LowQual'')"

section \<open>Allele recovery\<close>

subsection \<open>The alignment source\<close>

text \<open>
  The alignment file and the reference file are external.  \<open>pileup_columns contig start stop\<close>
  is the list of columns that \<^verbatim>\<open>sam_file.pileup\<close> hands to the callback of \<^verbatim>\<open>pileup\<close>
  (up to its end, or up to the \<^verbatim>\<open>AssertionError\<close> that \<^verbatim>\<open>pileup\<close> swallows), each column
  with its \<^verbatim>\<open>reference_pos\<close> and its query sequences with indel markers.
  \<open>fetch contig start end\<close> is \<^verbatim>\<open>fasta_file.fetch\<close>.
\<close>

record alignment_source =
  pileup_columns :: "string \<Rightarrow> int \<Rightarrow> int \<Rightarrow> (int \<times> string list) list"
  fetch :: "string \<Rightarrow> int \<Rightarrow> int \<Rightarrow> string"

definition isdigit :: "char \<Rightarrow> bool" where
  "isdigit c = (48 \<le> (of_char c :: nat) \<and> (of_char c :: nat) \<le> 57)"

definition digit_value :: "char \<Rightarrow> int" where
  "digit_value c = int (of_char c) - 48"

definition upper :: "string \<Rightarrow> string" where
  "upper s = map (\<lambda>c. if 97 \<le> (of_char c :: nat) \<and> (of_char c :: nat) \<le> 122
                        then char_of ((of_char c :: nat) - 32) else c) s"

text \<open>The run-length digits after the indel marker, read as the source's loop does.\<close>

definition run_length :: "string \<Rightarrow> int" where
  "run_length sequence =
     fold (\<lambda>c n. n * 10 + digit_value c) (takeWhile isdigit (drop 2 sequence)) 0"

definition after_run_length :: "string \<Rightarrow> string" where
  "after_run_length sequence = dropWhile isdigit (drop 2 sequence)"

text \<open>
  The counting dictionary, as an association list in the order of first insertion.
  (The Python 2 dictionary of the source iterates in hash order; the order matters only
  between keys with the same count.)
\<close>

type_synonym counts = "(string \<times> nat) list"

fun increment :: "counts \<Rightarrow> string \<Rightarrow> counts" where
  "increment [] key = [(key, 1)]"
| "increment ((k, c) # d) key = (if k = key then (k, c + 1) # d else (k, c) # increment d key)"

text \<open>\<^verbatim>\<open>max(d, key=d.get) if len(d) > 0 else ""\<close>\<close>

definition most_frequent :: "counts \<Rightarrow> string" where
  "most_frequent d =
     (case d of [] \<Rightarrow> '''' | kc # rest \<Rightarrow> fst (strict_max_scan (map (\<lambda>(k, c). (k, real c)) rest) (fst kc, real (snd kc))))"

text \<open>
  One query sequence of a column.  The local \<^verbatim>\<open>insertion_bases\<close> is unbound (\<open>None\<close>)
  until a sequence has a character after its digits; reading it unbound raises.
\<close>

definition insertion_sequence_step ::
  "int \<Rightarrow> int \<Rightarrow> string \<Rightarrow> string \<Rightarrow> py_error + counts \<times> string option
     \<Rightarrow> py_error + counts \<times> string option" where
  "insertion_sequence_step minimum_insertion_length maximum_insertion_length
       insertion_bases_to_ignore sequence st =
     (case st of
        Inl err \<Rightarrow> Inl err
      | Inr (insertion_bases_dict, bound) \<Rightarrow>
          if length sequence < 4 \<or> sequence ! 1 \<noteq> CHR ''+'' then Inr (insertion_bases_dict, bound)
          else
            let no_of_insertion_bases = run_length sequence;
                bound' = (if after_run_length sequence = [] then bound
                          else Some (upper (after_run_length sequence)))
            in if minimum_insertion_length \<le> no_of_insertion_bases
                  \<and> no_of_insertion_bases \<le> maximum_insertion_length
               then (case bound' of
                       None \<Rightarrow> Inl UnboundLocalError
                     | Some insertion_bases \<Rightarrow>
                         if insertion_bases \<noteq> insertion_bases_to_ignore
                         then Inr (increment insertion_bases_dict insertion_bases, bound')
                         else Inr (insertion_bases_dict, bound'))
               else Inr (insertion_bases_dict, bound'))"

definition insertion_bases_using_pysam_from ::
  "alignment_source \<Rightarrow> string \<Rightarrow> int \<Rightarrow> int \<Rightarrow> int \<Rightarrow> string \<Rightarrow> py_error + string" where
  "insertion_bases_using_pysam_from sam_file contig position minimum_insertion_length
       maximum_insertion_length insertion_bases_to_ignore =
     (case fold (\<lambda>(reference_pos, sequences) st.
              (case st of
                 Inl err \<Rightarrow> Inl err
               | Inr insertion_bases_dict \<Rightarrow>
                   if reference_pos \<noteq> position - 1 then Inr insertion_bases_dict
                   else map_sum id fst
                     (fold (insertion_sequence_step minimum_insertion_length
                              maximum_insertion_length insertion_bases_to_ignore)
                        sequences (Inr (insertion_bases_dict, None)))))
            (pileup_columns sam_file contig position (position + 1)) (Inr []) of
        Inl err \<Rightarrow> Inl err
      | Inr insertion_bases_dict \<Rightarrow> Inr (most_frequent insertion_bases_dict))"

definition deletion_sequence_step ::
  "alignment_source \<Rightarrow> string \<Rightarrow> int \<Rightarrow> int \<Rightarrow> int \<Rightarrow> string
     \<Rightarrow> py_error + counts \<times> string option \<Rightarrow> py_error + counts \<times> string option" where
  "deletion_sequence_step fasta_file contig position minimum_deletion_length
       maximum_deletion_length sequence st =
     (case st of
        Inl err \<Rightarrow> Inl err
      | Inr (deletion_bases_dict, bound) \<Rightarrow>
          if length sequence < 4 \<or> sequence ! 1 \<noteq> CHR ''-'' then Inr (deletion_bases_dict, bound)
          else
            let no_of_deletion_bases = run_length sequence;
                bound' = (if after_run_length sequence = [] then bound
                          else Some (fetch fasta_file contig position
                                       (position + no_of_deletion_bases)))
            in if minimum_deletion_length \<le> no_of_deletion_bases
                  \<and> no_of_deletion_bases \<le> maximum_deletion_length
               then (case bound' of
                       None \<Rightarrow> Inl UnboundLocalError
                     | Some deletion_bases \<Rightarrow>
                         Inr (increment deletion_bases_dict deletion_bases, bound'))
               else Inr (deletion_bases_dict, bound'))"

definition deletion_bases_using_pysam_from ::
  "alignment_source \<Rightarrow> string \<Rightarrow> int \<Rightarrow> int \<Rightarrow> int \<Rightarrow> py_error + string" where
  "deletion_bases_using_pysam_from sam_file contig position minimum_deletion_length
       maximum_deletion_length =
     (case fold (\<lambda>(reference_pos, sequences) st.
              (case st of
                 Inl err \<Rightarrow> Inl err
               | Inr deletion_bases_dict \<Rightarrow>
                   if reference_pos \<noteq> position - 1 then Inr deletion_bases_dict
                   else map_sum id fst
                     (fold (deletion_sequence_step sam_file contig position
                              minimum_deletion_length maximum_deletion_length)
                        sequences (Inr (deletion_bases_dict, None)))))
            (pileup_columns sam_file contig position (position + 1)) (Inr []) of
        Inl err \<Rightarrow> Inl err
      | Inr deletion_bases_dict \<Rightarrow> Inr (most_frequent deletion_bases_dict))"

subsection \<open>Bases from the evidence tensor\<close>

text \<open>The insertion channel of one position with the two strands merged, as the source
  builds it: rows \<open>0..3\<close> hold the sums, rows \<open>4..7\<close> are zeroed.\<close>

definition merged_insertion_tensor :: "tensor \<Rightarrow> nat \<Rightarrow> real list" where
  "merged_insertion_tensor tensor_input position =
     map (\<lambda>base_index. tensor_input position base_index Channel_insert
                          + tensor_input position (base_index + 4) Channel_insert) [0..<4]
     @ [0, 0, 0, 0]"

definition insertion_base_at :: "tensor \<Rightarrow> nat \<Rightarrow> char" where
  "insertion_base_at tensor_input position =
     num2base (argmax (merged_insertion_tensor tensor_input position) mod 4)"

fun inferred_insertion_walk :: "constants \<Rightarrow> tensor \<Rightarrow> nat list \<Rightarrow> string" where
  "inferred_insertion_walk k tensor_input [] = []"
| "inferred_insertion_walk k tensor_input (position # positions) =
     (if int position < int (flanking_base_number k) + minimum_variant_length_that_need_infer k
         \<or> sum_list (merged_insertion_tensor tensor_input position)
              \<ge> inferred_indel_length_minimum_allele_frequency
                  * row_sum tensor_input position Channel_reference
      then insertion_base_at tensor_input position
             # inferred_insertion_walk k tensor_input positions
      else [])"

definition inferred_insertion_bases_from :: "constants \<Rightarrow> tensor \<Rightarrow> string" where
  "inferred_insertion_bases_from k tensor_input =
     inferred_insertion_walk k tensor_input
       [flanking_base_number k + 1..<2 * flanking_base_number k + 1]"

text \<open>Reading a position beyond the last one, \<open>2 * flanking_base_number\<close>, raises.\<close>

definition insertion_bases_using_tensor :: "constants \<Rightarrow> tensor \<Rightarrow> int \<Rightarrow> py_error + string" where
  "insertion_bases_using_tensor k tensor_input variant_length =
     (if variant_length > int (flanking_base_number k) then Inl IndexError
      else Inr (map (\<lambda>position. insertion_base_at tensor_input (nat position))
                  [int (flanking_base_number k) + 1..int (flanking_base_number k) + variant_length]))"

definition maximum_variant_length_from :: "constants \<Rightarrow> int \<Rightarrow> int" where
  "maximum_variant_length_from k variant_length =
     (if variant_length \<ge> minimum_variant_length_that_need_infer k
      then maximum_variant_length_that_need_infer else variant_length)"

subsection \<open>The decision order\<close>

text \<open>The results are \<open>(bases, length, is_inferred)\<close>.\<close>

definition insertion_bases_from ::
  "constants \<Rightarrow> tensor \<Rightarrow> int \<Rightarrow> alignment_source \<Rightarrow> string \<Rightarrow> int \<Rightarrow> bool
     \<Rightarrow> py_error + string \<times> nat \<times> bool" where
  "insertion_bases_from k tensor_input variant_length sam_file contig position
       is_using_pysam_for_all_indel_bases_output =
     (if is_using_pysam_for_all_indel_bases_output then
        (case insertion_bases_using_pysam_from sam_file contig position variant_length
                (maximum_variant_length_from k variant_length) '''' of
           Inl err \<Rightarrow> Inl err
         | Inr insertion_bases \<Rightarrow> Inr (insertion_bases, length insertion_bases, False))
      else if \<not> variant_length \<ge> minimum_variant_length_that_need_infer k then
        (case insertion_bases_using_tensor k tensor_input variant_length of
           Inl err \<Rightarrow> Inl err
         | Inr insertion_bases \<Rightarrow> Inr (insertion_bases, length insertion_bases, False))
      else
        (case insertion_bases_using_pysam_from sam_file contig position
                (minimum_variant_length_that_need_infer k)
                maximum_variant_length_that_need_infer '''' of
           Inl err \<Rightarrow> Inl err
         | Inr insertion_bases \<Rightarrow>
             if length insertion_bases > 0
             then Inr (insertion_bases, length insertion_bases, False)
             else let insertion_bases = inferred_insertion_bases_from k tensor_input
                  in Inr (insertion_bases, length insertion_bases, True)))"

text \<open>\<^verbatim>\<open>s[start:stop]\<close> for non-negative \<open>start\<close>, \<open>stop\<close>.\<close>

definition slice :: "string \<Rightarrow> nat \<Rightarrow> nat \<Rightarrow> string" where
  "slice s start stop = take (stop - start) (drop start s)"

definition deletion_bases_from ::
  "constants \<Rightarrow> tensor \<Rightarrow> int \<Rightarrow> alignment_source \<Rightarrow> string \<Rightarrow> int \<Rightarrow> string \<Rightarrow> bool
     \<Rightarrow> py_error + string \<times> nat \<times> bool" where
  "deletion_bases_from k tensor_input variant_length sam_file contig position
       reference_sequence is_using_pysam_for_all_indel_bases_output =
     (if is_using_pysam_for_all_indel_bases_output then
        (case deletion_bases_using_pysam_from sam_file contig position variant_length
                (maximum_variant_length_from k variant_length) of
           Inl err \<Rightarrow> Inl err
         | Inr deletion_bases \<Rightarrow> Inr (deletion_bases, length deletion_bases, False))
      else
        let need_inferred_variant_length =
              (variant_length \<ge> minimum_variant_length_that_need_infer k)
        in case (if need_inferred_variant_length
                 then deletion_bases_using_pysam_from sam_file contig position
                        (minimum_variant_length_that_need_infer k)
                        maximum_variant_length_that_need_infer
                 else Inr '''') of
             Inl err \<Rightarrow> Inl err
           | Inr deletion_bases \<Rightarrow>
               let have_long_deletion_bases =
                     (need_inferred_variant_length
                      \<and> length deletion_bases \<ge> flanking_base_number k)
               in if have_long_deletion_bases
                  then Inr (deletion_bases, length deletion_bases, False)
                  else let deletion_bases =
                             slice reference_sequence (flanking_base_number k + 1)
                               (nat (int (flanking_base_number k) + variant_length + 1))
                       in Inr (deletion_bases, length deletion_bases,
                               need_inferred_variant_length))"

section \<open>Quality score\<close>

definition epsilon :: real where
  "epsilon = 1 / 10 ^ 300"

text \<open>
  The formula of \<^verbatim>\<open>quality_score_from\<close> on the probability \<open>p\<close>, over the reals.
  \<^verbatim>\<open>math.log\<close> raises on a non-positive argument and the division raises on a zero
  divisor.  The rounded value is a square, so Python 2's rounding (half away from zero)
  is \<open>round\<close>.
\<close>

definition tmp_of_probability :: "real \<Rightarrow> real" where
  "tmp_of_probability p =
     (- 10 * log 10 (exp 1)) * ln (((1 - p) + epsilon) / (p + epsilon)) + 33"

definition quality_of_probability :: "real \<Rightarrow> py_error + int" where
  "quality_of_probability p =
     (if p + epsilon = 0 then Inl ZeroDivisionError
      else if ((1 - p) + epsilon) / (p + epsilon) \<le> 0 then Inl ValueError
      else let tmp = tmp_of_probability p
           in Inr (round (tmp * tmp)))"

text \<open>\<^verbatim>\<open>s.split(',')\<close>\<close>

fun split_commas :: "string \<Rightarrow> string list" where
  "split_commas [] = [[]]"
| "split_commas (c # s) =
     (if c = CHR '','' then [] # split_commas s
      else (case split_commas s of [] \<Rightarrow> [[c]] | w # ws \<Rightarrow> (c # w) # ws))"

definition quality_score_from ::
  "label_functions \<Rightarrow> string \<Rightarrow> string \<Rightarrow> string \<Rightarrow> gt21_probs \<Rightarrow> genotype_probs
     \<Rightarrow> py_error + int" where
  "quality_score_from utils reference_base alternate_base genotype_string gt21_probabilities
       genotype_probabilities =
     (let g1 = digit_value (genotype_string ! 0);
          g2 = digit_value (genotype_string ! 2);
          genotype_1 = (if g1 > g2 then g2 else g1);
          genotype_2 = (if g1 > g2 then g1 else g2);
          alternate_arr = split_commas alternate_base;
          alternate_arr =
            (if length alternate_arr = 1
             then [if genotype_1 = 0 \<or> genotype_2 = 0 then reference_base else alternate_arr ! 0]
                  @ alternate_arr
             else alternate_arr);
          partial_labels = map (partial_label_from utils reference_base) alternate_arr;
          gt21_label = mix_two_partial_labels utils (partial_labels ! 0) (partial_labels ! 1);
          gt21 = base_change_enum_from utils gt21_label;
          is_homo_reference = (genotype_1 = 0 \<and> genotype_2 = 0);
          is_homo_variant = (\<not> is_homo_reference \<and> genotype_1 = genotype_2);
          is_hetero_variant = (\<not> is_homo_reference \<and> \<not> is_homo_variant);
          is_multi = (\<not> is_homo_variant \<and> genotype_1 \<noteq> 0 \<and> genotype_2 \<noteq> 0);
          genotype =
            (if is_homo_reference then homo_reference
             else if is_homo_variant then homo_variant
             else if is_hetero_variant \<and> \<not> is_multi then hetero_variant
             else if is_hetero_variant \<and> is_multi then hetero_variant
             else unknown)
      in if genotype = unknown then Inr 0
         else quality_of_probability (gt21_probabilities gt21 * genotype_probabilities genotype))"

section \<open>Hypothesis scorer\<close>

record args =
  showRef :: bool
  debug :: bool
  pysam_for_all_indel_bases :: bool
  qual :: "int option"

text \<open>One site of a batch: the tensor, the three parts of \<^verbatim>\<open>chr_pos_seq\<close>, and the four
  probability arrays.\<close>

record site =
  site_x :: tensor
  site_chromosome :: string
  site_position :: int
  site_reference_sequence :: string
  site_gt21_probabilities :: gt21_probs
  site_genotype_probabilities :: genotype_probs
  site_variant_length_probabilities_1 :: length_probs
  site_variant_length_probabilities_2 :: length_probs

definition length_1 :: "length_tuple \<Rightarrow> int" where
  "length_1 t = fst t"

definition length_2 :: "length_tuple \<Rightarrow> int" where
  "length_2 t = fst (snd t)"

definition joint_probability :: "length_tuple \<Rightarrow> real" where
  "joint_probability t = snd (snd t)"

text \<open>The seven resolver calls of \<^verbatim>\<open>Output\<close>.\<close>

definition homo_insert_tuple :: "constants \<Rightarrow> site \<Rightarrow> length_tuple" where
  "homo_insert_tuple k s = insertion_length_tuple_from (VariantLength_max k)
     (site_variant_length_probabilities_1 s) (site_variant_length_probabilities_2 s) False False"

definition homo_delete_tuple :: "constants \<Rightarrow> site \<Rightarrow> length_tuple" where
  "homo_delete_tuple k s = deletion_length_tuple_from (VariantLength_max k)
     (site_variant_length_probabilities_1 s) (site_variant_length_probabilities_2 s) False False"

definition hetero_ACGT_Ins_tuple :: "constants \<Rightarrow> site \<Rightarrow> length_tuple" where
  "hetero_ACGT_Ins_tuple k s = insertion_length_tuple_from (VariantLength_max k)
     (site_variant_length_probabilities_1 s) (site_variant_length_probabilities_2 s) True False"

definition hetero_InsIns_tuple :: "constants \<Rightarrow> site \<Rightarrow> length_tuple" where
  "hetero_InsIns_tuple k s = insertion_length_tuple_from (VariantLength_max k)
     (site_variant_length_probabilities_1 s) (site_variant_length_probabilities_2 s) False True"

definition hetero_ACGT_Del_tuple :: "constants \<Rightarrow> site \<Rightarrow> length_tuple" where
  "hetero_ACGT_Del_tuple k s = deletion_length_tuple_from (VariantLength_max k)
     (site_variant_length_probabilities_1 s) (site_variant_length_probabilities_2 s) True False"

definition hetero_DelDel_tuple :: "constants \<Rightarrow> site \<Rightarrow> length_tuple" where
  "hetero_DelDel_tuple k s = deletion_length_tuple_from (VariantLength_max k)
     (site_variant_length_probabilities_1 s) (site_variant_length_probabilities_2 s) False True"

definition hetero_InsDel_tuple :: "constants \<Rightarrow> site \<Rightarrow> length_tuple" where
  "hetero_InsDel_tuple k s = insertion_and_deletion_length_tuple_from (VariantLength_max k)
     (site_variant_length_probabilities_1 s) (site_variant_length_probabilities_2 s)"

definition zero_variant_length_probability :: "site \<Rightarrow> real" where
  "zero_variant_length_probability s =
     site_variant_length_probabilities_1 s 0 * site_variant_length_probabilities_2 s 0"

text \<open>The window's center base, \<^verbatim>\<open>reference_sequence[position_center]\<close>, as a string.\<close>

definition center_base :: "constants \<Rightarrow> site \<Rightarrow> string" where
  "center_base k s = [site_reference_sequence s ! flanking_base_number k]"

record scores =
  homo_Ref_probability :: real
  homo_SNP_probability :: real
  hetero_SNP_probability :: real
  homo_insert_probability :: real
  homo_delete_probability :: real
  hetero_ACGT_Ins_probability :: real
  hetero_InsIns_probability :: real
  hetero_ACGT_Del_probability :: real
  hetero_DelDel_probability :: real
  hetero_InsDel_probability :: real

definition max4 :: "real \<Rightarrow> real \<Rightarrow> real \<Rightarrow> real \<Rightarrow> real" where
  "max4 a b c d = max a (max b (max c d))"

definition site_scores :: "constants \<Rightarrow> label_functions \<Rightarrow> site \<Rightarrow> scores" where
  "site_scores k utils s =
     (let gt21_probabilities = site_gt21_probabilities s;
          homo_reference_probability = site_genotype_probabilities s homo_reference;
          homo_variant_probability = site_genotype_probabilities s homo_variant;
          hetero_variant_probability = site_genotype_probabilities s hetero_variant;
          reference_base = center_base k s;
          reference_base_change = base_change_enum_from utils (reference_base @ reference_base)
      in \<lparr> homo_Ref_probability =
             gt21_probabilities reference_base_change * zero_variant_length_probability s
               * homo_reference_probability,
           homo_SNP_probability =
             max4 (gt21_probabilities GT21_AA) (gt21_probabilities GT21_CC)
                  (gt21_probabilities GT21_GG) (gt21_probabilities GT21_TT)
               * zero_variant_length_probability s * homo_variant_probability,
           hetero_SNP_probability =
             max (gt21_probabilities GT21_AC) (max (gt21_probabilities GT21_AG)
               (max4 (gt21_probabilities GT21_AT) (gt21_probabilities GT21_CG)
                     (gt21_probabilities GT21_CT) (gt21_probabilities GT21_GT)))
               * zero_variant_length_probability s * hetero_variant_probability,
           homo_insert_probability =
             gt21_probabilities GT21_InsIns * joint_probability (homo_insert_tuple k s)
               * homo_variant_probability,
           homo_delete_probability =
             gt21_probabilities GT21_DelDel * joint_probability (homo_delete_tuple k s)
               * homo_variant_probability,
           hetero_ACGT_Ins_probability =
             max4 (gt21_probabilities GT21_AIns) (gt21_probabilities GT21_CIns)
                  (gt21_probabilities GT21_GIns) (gt21_probabilities GT21_TIns)
               * joint_probability (hetero_ACGT_Ins_tuple k s) * hetero_variant_probability,
           hetero_InsIns_probability =
             gt21_probabilities GT21_InsIns * joint_probability (hetero_InsIns_tuple k s)
               * hetero_variant_probability,
           hetero_ACGT_Del_probability =
             max4 (gt21_probabilities GT21_ADel) (gt21_probabilities GT21_CDel)
                  (gt21_probabilities GT21_GDel) (gt21_probabilities GT21_TDel)
               * joint_probability (hetero_ACGT_Del_tuple k s) * hetero_variant_probability,
           hetero_DelDel_probability =
             gt21_probabilities GT21_DelDel * joint_probability (hetero_DelDel_tuple k s)
               * hetero_variant_probability,
           hetero_InsDel_probability =
             gt21_probabilities GT21_InsDel * joint_probability (hetero_InsDel_tuple k s)
               * hetero_variant_probability \<rparr>)"

text \<open>The ten joint probabilities in the order of the source's \<^verbatim>\<open>max(...)\<close> call.\<close>

definition score_list :: "scores \<Rightarrow> real list" where
  "score_list sc =
     [homo_Ref_probability sc, homo_SNP_probability sc, hetero_SNP_probability sc,
      homo_insert_probability sc, homo_delete_probability sc, hetero_ACGT_Ins_probability sc,
      hetero_InsIns_probability sc, hetero_ACGT_Del_probability sc,
      hetero_DelDel_probability sc, hetero_InsDel_probability sc]"

definition maximum_probability :: "scores \<Rightarrow> real" where
  "maximum_probability sc = fold max (tl (score_list sc)) (hd (score_list sc))"

text \<open>The winner flags: each is an equality test against the maximum.\<close>

definition is_reference :: "scores \<Rightarrow> bool" where
  "is_reference sc = (maximum_probability sc = homo_Ref_probability sc)"

definition is_homo_SNP :: "scores \<Rightarrow> bool" where
  "is_homo_SNP sc = (maximum_probability sc = homo_SNP_probability sc)"

definition is_hetero_SNP :: "scores \<Rightarrow> bool" where
  "is_hetero_SNP sc = (maximum_probability sc = hetero_SNP_probability sc)"

definition is_homo_insertion :: "scores \<Rightarrow> bool" where
  "is_homo_insertion sc = (maximum_probability sc = homo_insert_probability sc)"

definition is_hetero_ACGT_Ins :: "scores \<Rightarrow> bool" where
  "is_hetero_ACGT_Ins sc = (maximum_probability sc = hetero_ACGT_Ins_probability sc)"

definition is_hetero_InsIns :: "scores \<Rightarrow> bool" where
  "is_hetero_InsIns sc = (maximum_probability sc = hetero_InsIns_probability sc)"

definition is_homo_deletion :: "scores \<Rightarrow> bool" where
  "is_homo_deletion sc = (maximum_probability sc = homo_delete_probability sc)"

definition is_hetero_ACGT_Del :: "scores \<Rightarrow> bool" where
  "is_hetero_ACGT_Del sc = (maximum_probability sc = hetero_ACGT_Del_probability sc)"

definition is_hetero_DelDel :: "scores \<Rightarrow> bool" where
  "is_hetero_DelDel sc = (maximum_probability sc = hetero_DelDel_probability sc)"

definition is_insertion_and_deletion :: "scores \<Rightarrow> bool" where
  "is_insertion_and_deletion sc = (maximum_probability sc = hetero_InsDel_probability sc)"

definition is_SNP :: "scores \<Rightarrow> bool" where
  "is_SNP sc = (is_homo_SNP sc \<or> is_hetero_SNP sc)"

definition is_insertion :: "scores \<Rightarrow> bool" where
  "is_insertion sc = (is_homo_insertion sc \<or> is_hetero_ACGT_Ins sc \<or> is_hetero_InsIns sc)"

definition is_deletion :: "scores \<Rightarrow> bool" where
  "is_deletion sc = (is_homo_deletion sc \<or> is_hetero_ACGT_Del sc \<or> is_hetero_DelDel sc)"

text \<open>The ten flags, in the order of \<open>score_list\<close>.\<close>

definition winner_flags :: "scores \<Rightarrow> bool list" where
  "winner_flags sc =
     [is_reference sc, is_homo_SNP sc, is_hetero_SNP sc, is_homo_insertion sc,
      is_homo_deletion sc, is_hetero_ACGT_Ins sc, is_hetero_InsIns sc, is_hetero_ACGT_Del sc,
      is_hetero_DelDel sc, is_insertion_and_deletion sc]"

section \<open>Record composer\<close>

datatype info_item = LENGUESS nat

record vcf_record =
  CHROM :: string
  POS :: int
  REF :: string
  ALT :: string
  QUAL :: int
  FILTER :: string
  INFO :: "info_item list"
  GT :: string
  GQ :: int
  DP :: real
  AF :: real

text \<open>
  What \<^verbatim>\<open>Output\<close> does for one site: it writes nothing, it writes a debug trace line
  (of which the model keeps the reason), it writes a record, or an exception ends it.
\<close>

datatype line = No_line | Debug_line string | Record_line vcf_record | Crash py_error

text \<open>\<^verbatim>\<open>print_debug_message_with\<close> followed by \<^verbatim>\<open>continue\<close>.\<close>

definition skip_site :: "args \<Rightarrow> string \<Rightarrow> line" where
  "skip_site a extra_infomation_string =
     (if debug a then Debug_line extra_infomation_string else No_line)"

text \<open>The alleles of a site: a skip with its reason, or
  \<open>(reference_base, alternate_base, genotype_string, length_guess)\<close>.\<close>

datatype composed = Skip_site string | Alleles string string string nat

definition read_depth :: "constants \<Rightarrow> site \<Rightarrow> real" where
  "read_depth k s =
     (\<Sum>r\<leftarrow>[0..<matrix_rows]. site_x s (flanking_base_number k) r Channel_delete
                                + site_x s (flanking_base_number k) r Channel_reference)"

definition initial_genotype_string :: "scores \<Rightarrow> string" where
  "initial_genotype_string sc =
     (if is_reference sc then genotype_string_from homo_reference
      else if is_homo_SNP sc \<or> is_homo_insertion sc \<or> is_homo_deletion sc
        then genotype_string_from homo_variant
      else if is_hetero_SNP sc \<or> is_hetero_ACGT_Ins sc \<or> is_hetero_InsIns sc
              \<or> is_hetero_ACGT_Del sc \<or> is_hetero_DelDel sc
        then genotype_string_from hetero_variant
      else if is_insertion_and_deletion sc then genotype_string_from hetero_variant_multi
      else [])"

definition compose_homo_SNP :: "constants \<Rightarrow> site \<Rightarrow> string \<Rightarrow> composed" where
  "compose_homo_SNP k s genotype_string =
     (case homo_SNP_bases_from (site_gt21_probabilities s) of (base1, base2) \<Rightarrow>
        let reference_base = center_base k s;
            alternate_base = (if [base1] \<noteq> reference_base then [base1] else [base2])
        in Alleles reference_base alternate_base genotype_string 0)"

definition compose_hetero_SNP :: "constants \<Rightarrow> site \<Rightarrow> string \<Rightarrow> composed" where
  "compose_hetero_SNP k s genotype_string =
     (case hetero_SNP_bases_from (site_gt21_probabilities s) of (base1, base2) \<Rightarrow>
        let reference_base = center_base k s;
            is_multi = ([base1] \<noteq> reference_base \<and> [base2] \<noteq> reference_base)
        in if is_multi
           then Alleles reference_base ([base1] @ '','' @ [base2])
                  (genotype_string_from hetero_variant_multi) 0
           else Alleles reference_base
                  (if [base1] \<noteq> reference_base then [base1] else [base2]) genotype_string 0)"

definition insertion_variant_length :: "constants \<Rightarrow> site \<Rightarrow> scores \<Rightarrow> int" where
  "insertion_variant_length k s sc =
     (if is_homo_insertion sc then length_1 (homo_insert_tuple k s)
      else if is_hetero_ACGT_Ins sc then length_2 (hetero_ACGT_Ins_tuple k s)
      else if is_hetero_InsIns sc then length_2 (hetero_InsIns_tuple k s)
      else 0)"

definition compose_insertion ::
  "constants \<Rightarrow> args \<Rightarrow> alignment_source \<Rightarrow> site \<Rightarrow> scores \<Rightarrow> string \<Rightarrow> py_error + composed" where
  "compose_insertion k a sam_file s sc genotype_string =
     (let variant_length = insertion_variant_length k s sc;
          is_hetero_insertion = (is_hetero_ACGT_Ins sc \<or> is_hetero_InsIns sc)
      in if is_hetero_insertion \<and> variant_length \<le> 0
         then Inr (Skip_site
                ''is hetero insertion and # of insertion bases predicted is less than 0'')
         else
           (case insertion_bases_from k (site_x s) variant_length sam_file (site_chromosome s)
                   (site_position s) (pysam_for_all_indel_bases a) of
              Inl err \<Rightarrow> Inl err
            | Inr (insertion_bases, insertion_length, is_inferred_insertion_bases) \<Rightarrow>
                let reference_base = (if insertion_length > 0 then center_base k s else []);
                    alternate_base =
                      (if insertion_length > 0 then reference_base @ insertion_bases else []);
                    length_guess = (if is_inferred_insertion_bases then insertion_length else 0);
                    hetero_insert_base =
                      (if is_hetero_ACGT_Ins sc
                       then [hetero_insert_base_from (site_gt21_probabilities s)] else []);
                    is_SNP_Ins_multi =
                      (is_hetero_ACGT_Ins sc \<and> insertion_length > 0
                       \<and> hetero_insert_base \<noteq> reference_base);
                    is_Ins_Ins_multi = (is_hetero_InsIns sc \<and> insertion_length > 0)
                in if is_SNP_Ins_multi
                   then Inr (Alleles reference_base (hetero_insert_base @ '','' @ alternate_base)
                               (genotype_string_from hetero_variant_multi) length_guess)
                   else if is_Ins_Ins_multi
                   then
                     (case insertion_bases_using_pysam_from sam_file (site_chromosome s)
                             (site_position s) (length_1 (hetero_InsIns_tuple k s))
                             (maximum_variant_length_from k (length_1 (hetero_InsIns_tuple k s)))
                             insertion_bases of
                        Inl err \<Rightarrow> Inl err
                      | Inr found \<Rightarrow>
                          let another_insertion_bases =
                                (if found \<noteq> [] then found
                                 else slice insertion_bases 0
                                        (nat (length_1 (hetero_InsIns_tuple k s))));
                              alternate_base_1 = reference_base @ another_insertion_bases;
                              alternate_base_2 = alternate_base
                          in if alternate_base_1 \<noteq> alternate_base_2
                             then Inr (Alleles reference_base
                                         (alternate_base_1 @ '','' @ alternate_base_2)
                                         (genotype_string_from hetero_variant_multi) length_guess)
                             else Inr (Alleles reference_base alternate_base genotype_string
                                         length_guess))
                   else Inr (Alleles reference_base alternate_base genotype_string length_guess)))"

definition deletion_variant_length :: "constants \<Rightarrow> site \<Rightarrow> scores \<Rightarrow> int" where
  "deletion_variant_length k s sc =
     (if is_homo_deletion sc then length_1 (homo_delete_tuple k s)
      else if is_hetero_ACGT_Del sc then length_2 (hetero_ACGT_Del_tuple k s)
      else if is_hetero_DelDel sc then length_2 (hetero_DelDel_tuple k s)
      else 0)"

definition compose_deletion ::
  "constants \<Rightarrow> args \<Rightarrow> alignment_source \<Rightarrow> site \<Rightarrow> scores \<Rightarrow> string \<Rightarrow> py_error + composed" where
  "compose_deletion k a sam_file s sc genotype_string =
     (let variant_length = deletion_variant_length k s sc;
          is_hetero_deletion = (is_hetero_ACGT_Del sc \<or> is_hetero_DelDel sc)
      in if is_hetero_deletion \<and> variant_length \<le> 0
         then Inr (Skip_site
                ''is hetero deletion and # of deletion bases predicted is less than 0'')
         else
           (case deletion_bases_from k (site_x s) variant_length sam_file (site_chromosome s)
                   (site_position s) (site_reference_sequence s)
                   (pysam_for_all_indel_bases a) of
              Inl err \<Rightarrow> Inl err
            | Inr (deletion_bases, deletion_length, is_inferred_deletion_bases) \<Rightarrow>
                let reference_base =
                      (if deletion_length > 0 then center_base k s @ deletion_bases else []);
                    alternate_base = (if deletion_length > 0 then take 1 reference_base else []);
                    length_guess = (if is_inferred_deletion_bases then deletion_length else 0);
                    hetero_delete_base =
                      (if is_hetero_ACGT_Del sc
                       then [hetero_delete_base_from (site_gt21_probabilities s)] else []);
                    is_SNP_Del_multi =
                      (is_hetero_ACGT_Del sc \<and> deletion_length > 0
                       \<and> hetero_delete_base \<noteq> take 1 reference_base);
                    is_Del_Del_multi = (is_hetero_DelDel sc \<and> deletion_length > 0)
                in if is_SNP_Del_multi
                   then Inr (Alleles reference_base
                               (alternate_base @ '','' @ (hetero_delete_base @ drop 1 reference_base))
                               (genotype_string_from hetero_variant_multi) length_guess)
                   else if is_Del_Del_multi
                   then
                     (let alternate_base_1 = alternate_base;
                          alternate_base_2 =
                            take 1 reference_base
                            @ drop (nat (length_1 (hetero_DelDel_tuple k s) + 1)) reference_base
                      in if alternate_base_1 \<noteq> alternate_base_2
                            \<and> reference_base \<noteq> alternate_base_1
                            \<and> reference_base \<noteq> alternate_base_2
                         then Inr (Alleles reference_base
                                     (alternate_base_1 @ '','' @ alternate_base_2)
                                     (genotype_string_from hetero_variant_multi) length_guess)
                         else Inr (Alleles reference_base alternate_base genotype_string
                                     length_guess))
                   else Inr (Alleles reference_base alternate_base genotype_string length_guess)))"

definition compose_insertion_and_deletion ::
  "constants \<Rightarrow> args \<Rightarrow> alignment_source \<Rightarrow> site \<Rightarrow> string \<Rightarrow> py_error + composed" where
  "compose_insertion_and_deletion k a sam_file s genotype_string =
     (case insertion_bases_from k (site_x s) (length_2 (hetero_InsDel_tuple k s)) sam_file
             (site_chromosome s) (site_position s) (pysam_for_all_indel_bases a) of
        Inl err \<Rightarrow> Inl err
      | Inr (insertion_bases, insertion_length, _) \<Rightarrow>
          (case deletion_bases_from k (site_x s) (length_1 (hetero_InsDel_tuple k s)) sam_file
                  (site_chromosome s) (site_position s) (site_reference_sequence s)
                  (pysam_for_all_indel_bases a) of
             Inl err \<Rightarrow> Inl err
           | Inr (deletion_bases, deletion_length, _) \<Rightarrow>
               if insertion_length > 0 \<and> deletion_length > 0
               then let reference_base = center_base k s @ deletion_bases
                    in Inr (Alleles reference_base
                              (take 1 reference_base @ '','' @
                                 (take 1 reference_base @ insertion_bases @ drop 1 reference_base))
                              genotype_string 0)
               else Inr (Alleles [] [] genotype_string 0)))"

text \<open>The \<^verbatim>\<open>if\<close>/\<^verbatim>\<open>elif\<close> chain that builds the alleles.\<close>

definition compose_alleles ::
  "constants \<Rightarrow> args \<Rightarrow> alignment_source \<Rightarrow> site \<Rightarrow> scores \<Rightarrow> py_error + composed" where
  "compose_alleles k a sam_file s sc =
     (let genotype_string = initial_genotype_string sc
      in if is_reference sc
           then Inr (Alleles (center_base k s) (center_base k s) genotype_string 0)
         else if is_homo_SNP sc then Inr (compose_homo_SNP k s genotype_string)
         else if is_hetero_SNP sc then Inr (compose_hetero_SNP k s genotype_string)
         else if is_insertion sc then compose_insertion k a sam_file s sc genotype_string
         else if is_deletion sc then compose_deletion k a sam_file s sc genotype_string
         else if is_insertion_and_deletion sc
           then compose_insertion_and_deletion k a sam_file s genotype_string
         else Inr (Alleles [] [] genotype_string 0))"

subsection \<open>Allele frequency\<close>

text \<open>The two-strand evidence of one base in one channel at the center; \<^verbatim>\<open>base2num\<close>
  raises on a character outside \<open>ACGT\<close>.\<close>

definition base_evidence :: "constants \<Rightarrow> site \<Rightarrow> char \<Rightarrow> Channel \<Rightarrow> py_error + real" where
  "base_evidence k s base ch =
     (case base2num base of
        None \<Rightarrow> Inl KeyError
      | Some i \<Rightarrow> Inr (site_x s (flanking_base_number k) i ch
                        + site_x s (flanking_base_number k) (i + 4) ch))"

fun SNP_supported_reads_count :: "constants \<Rightarrow> site \<Rightarrow> string \<Rightarrow> real \<Rightarrow> py_error + real" where
  "SNP_supported_reads_count k s [] supported_reads_count = Inr supported_reads_count"
| "SNP_supported_reads_count k s (base # bases) supported_reads_count =
     (if base = CHR '','' then SNP_supported_reads_count k s bases supported_reads_count
      else (case base_evidence k s base Channel_SNP of
              Inl err \<Rightarrow> Inl err
            | Inr snp \<Rightarrow>
                (case base_evidence k s base Channel_reference of
                   Inl err \<Rightarrow> Inl err
                 | Inr ref \<Rightarrow>
                     SNP_supported_reads_count k s bases (supported_reads_count + (snp + ref)))))"

definition supported_reads_count ::
  "constants \<Rightarrow> site \<Rightarrow> scores \<Rightarrow> string \<Rightarrow> string \<Rightarrow> py_error + real" where
  "supported_reads_count k s sc reference_base alternate_base =
     (let position_center = flanking_base_number k
      in if is_reference sc then
           (if length reference_base = 1
            then base_evidence k s (reference_base ! 0) Channel_reference
            else Inl KeyError)
         else if is_SNP sc then SNP_supported_reads_count k s alternate_base 0
         else if is_insertion sc then
           Inr (row_sum (site_x s) (position_center + 1) Channel_insert
                - row_sum (site_x s) (position_center + 1) Channel_SNP)
         else if is_deletion sc then
           Inr (row_sum (site_x s) (position_center + 1) Channel_delete)
         else if is_insertion_and_deletion sc then
           Inr (row_sum (site_x s) (position_center + 1) Channel_insert
                + row_sum (site_x s) (position_center + 1) Channel_delete
                - row_sum (site_x s) (position_center + 1) Channel_SNP)
         else Inr 0)"

definition allele_frequency :: "real \<Rightarrow> real \<Rightarrow> real" where
  "allele_frequency supported read_depth' =
     (let af = (if read_depth' \<noteq> 0 then (supported + 0) / read_depth' else 0)
      in if af > 1 then 1 else af)"

definition info_from :: "constants \<Rightarrow> nat \<Rightarrow> info_item list" where
  "info_from k length_guess =
     (if 0 < length_guess \<and> length_guess < flanking_base_number k
      then [LENGUESS length_guess] else [])"

subsection \<open>The body of the loop of \<^verbatim>\<open>Output\<close>\<close>

definition Output_site ::
  "constants \<Rightarrow> label_functions \<Rightarrow> args \<Rightarrow> alignment_source \<Rightarrow> site \<Rightarrow> line" where
  "Output_site k utils a sam_file s =
     (if length (site_reference_sequence s) \<le> flanking_base_number k then Crash IndexError
      else
        let sc = site_scores k utils s
        in if \<not> debug a \<and> \<not> showRef a \<and> is_reference sc then No_line
           else if read_depth k s = 0 then skip_site a ''Read Depth is zero''
           else
             (case compose_alleles k a sam_file s sc of
                Inl err \<Rightarrow> Crash err
              | Inr (Skip_site reason) \<Rightarrow> skip_site a reason
              | Inr (Alleles reference_base alternate_base genotype_string length_guess) \<Rightarrow>
                  if reference_base = [] \<or> alternate_base = []
                  then skip_site a ''no reference base / alternate base prediction''
                  else
                    (case supported_reads_count k s sc reference_base alternate_base of
                       Inl err \<Rightarrow> Crash err
                     | Inr supported \<Rightarrow>
                         (case quality_score_from utils reference_base alternate_base
                                 genotype_string (site_gt21_probabilities s)
                                 (site_genotype_probabilities s) of
                            Inl err \<Rightarrow> Crash err
                          | Inr quality_score \<Rightarrow>
                              if debug a
                              then Debug_line
                                     (if \<not> is_reference sc then ''Normal output''
                                      else ''Reference'')
                              else Record_line
                                \<lparr> CHROM = site_chromosome s,
                                  POS = site_position s,
                                  REF = reference_base,
                                  ALT = alternate_base,
                                  QUAL = quality_score,
                                  FILTER = filtration_value_from (qual a) quality_score,
                                  INFO = info_from k length_guess,
                                  GT = genotype_string,
                                  GQ = quality_score,
                                  DP = read_depth k s,
                                  AF = allele_frequency supported (read_depth k s) \<rparr>))))"

section \<open>Pipeline orchestrator\<close>

text \<open>
  \<^verbatim>\<open>Test\<close> pulls batches from the generator, each with its end flag (\<open>0\<close> or \<open>1\<close>, here a
  boolean), and calls \<^verbatim>\<open>m.predict\<close> and \<^verbatim>\<open>Output\<close>.  The model records what it calls: a
  step is the list of calls that run between one start of the threads and their join (a
  call made outside a thread is a step of its own).  \<open>Emit b c\<close> is the call of
  \<^verbatim>\<open>Output\<close> on the batch \<open>b\<close> with the results that the classifier computed for the
  batch \<open>c\<close>.  The calls of one step run concurrently; a step ends before the next one
  begins.
\<close>

datatype 'b action = Predict 'b | Emit 'b 'b

type_synonym 'b schedule = "'b action list list"

text \<open>The \<^verbatim>\<open>while True\<close> loop; \<open>cached\<close> is the batch whose results \<^verbatim>\<open>base, gt, l1, l2\<close> hold.
  \<^verbatim>\<open>next\<close> on an exhausted generator raises \<^verbatim>\<open>StopIteration\<close> in the main thread, after the
  threads of the step were started.\<close>

function Test_loop ::
  "bool \<Rightarrow> 'b \<Rightarrow> bool \<Rightarrow> 'b \<Rightarrow> 'b \<Rightarrow> (bool \<times> 'b) list \<Rightarrow> py_error option \<times> 'b schedule" where
  "Test_loop end XBatch end2 XBatch2 cached tensorGenerator =
     (let terminate = end;
          threadPool = (if \<not> end then [Predict XBatch2] else []) @ [Emit XBatch cached]
      in if \<not> end2 \<and> tensorGenerator = [] then (Some StopIteration, [threadPool])
         else
           let end3 = (if \<not> end2 then fst (hd tensorGenerator) else end2);
               XBatch3 = (if \<not> end2 then snd (hd tensorGenerator) else XBatch2);
               tensorGenerator' = (if \<not> end2 then tl tensorGenerator else tensorGenerator);
               cached' = (if \<not> end then XBatch2 else cached);
               end' = (if \<not> end then end2 else end);
               XBatch' = (if \<not> end then XBatch2 else XBatch);
               end2' = (if \<not> end2 then end3 else end2);
               XBatch2' = (if \<not> end2 then XBatch3 else XBatch2)
           in if terminate then (None, [threadPool])
              else (case Test_loop end' XBatch' end2' XBatch2' cached' tensorGenerator' of
                      (err, steps) \<Rightarrow> (err, threadPool # steps)))"
  by pat_completeness auto
termination
  by (relation "measure (\<lambda>(end, XBatch, end2, XBatch2, cached, tensorGenerator).
        2 * length tensorGenerator + (if end then 0 else 1) + (if end2 then 0 else 1))")
     (auto simp: neq_Nil_conv)

definition Test :: "(bool \<times> 'b) list \<Rightarrow> py_error option \<times> 'b schedule" where
  "Test tensorGenerator =
     (case tensorGenerator of
        [] \<Rightarrow> (Some StopIteration, [])
      | (end2, XBatch2) # rest \<Rightarrow>
          if \<not> end2 then
            (case rest of
               [] \<Rightarrow> (Some StopIteration, [[Predict XBatch2]])
             | (end3, XBatch3) # rest' \<Rightarrow>
                 (case Test_loop end2 XBatch2 end3 XBatch3 XBatch2 rest' of
                    (err, steps) \<Rightarrow> (err, [Predict XBatch2] # steps)))
          else (None, [[Predict XBatch2], [Emit XBatch2 XBatch2]]))"

text \<open>The calls of a schedule, per kind, in the order of the steps.\<close>

fun predicted :: "'b action \<Rightarrow> 'b list" where
  "predicted (Predict b) = [b]"
| "predicted (Emit b c) = []"

fun emitted :: "'b action \<Rightarrow> ('b \<times> 'b) list" where
  "emitted (Predict b) = []"
| "emitted (Emit b c) = [(b, c)]"

definition predictions :: "'b schedule \<Rightarrow> 'b list" where
  "predictions steps = concat (map predicted (concat steps))"

definition emissions :: "'b schedule \<Rightarrow> ('b \<times> 'b) list" where
  "emissions steps = concat (map emitted (concat steps))"

text \<open>The schedule in the specification's words: the first batch is classified alone;
  then the output of batch \<open>i\<close> runs together with the classification of batch \<open>i + 1\<close>;
  the last batch is written alone.\<close>

fun overlapped :: "'b \<Rightarrow> 'b list \<Rightarrow> 'b schedule" where
  "overlapped b [] = [[Emit b b]]"
| "overlapped b (b' # bs) = [Predict b', Emit b b] # overlapped b' bs"

fun double_buffered :: "'b list \<Rightarrow> 'b schedule" where
  "double_buffered [] = []"
| "double_buffered (b # bs) = [Predict b] # overlapped b bs"

section \<open>Concrete inputs\<close>

text \<open>The constants used in the examples: both \<open>16\<close>.\<close>

definition constants_16 :: constants where
  "constants_16 = \<lparr> VariantLength_max = 16, flanking_base_number = 16 \<rparr>"

text \<open>A length vector with its whole mass on the length \<open>1\<close>.\<close>

definition unit_at_one :: length_probs where
  "unit_at_one k = (if k = 1 then 1 else 0)"

text \<open>A length vector with mass \<open>1/2\<close> on the length \<open>3\<close>.\<close>

definition half_at_three :: length_probs where
  "half_at_three k = (if k = 3 then 1 / 2 else 0)"

text \<open>
  One instance of the absent label helpers: an allele longer than the reference is an
  insertion, a shorter one a deletion, otherwise its first base; two partial labels are
  joined in alphabetical order, and the joined label is looked up among the labels of
  \<open>GT21\<close>.
\<close>

definition all_GT21 :: "GT21 list" where
  "all_GT21 =
     [GT21_AA, GT21_AC, GT21_AG, GT21_AT, GT21_CC, GT21_CG, GT21_CT, GT21_GG, GT21_GT, GT21_TT,
      GT21_DelDel, GT21_ADel, GT21_CDel, GT21_GDel, GT21_TDel,
      GT21_InsIns, GT21_AIns, GT21_CIns, GT21_GIns, GT21_TIns, GT21_InsDel]"

definition example_partial_label_from :: "string \<Rightarrow> string \<Rightarrow> string" where
  "example_partial_label_from reference alternate =
     (if length reference > length alternate then ''Del''
      else if length reference < length alternate then ''Ins''
      else take 1 alternate)"

definition example_mix_two_partial_labels :: "string \<Rightarrow> string \<Rightarrow> string" where
  "example_mix_two_partial_labels label1 label2 =
     (if length label1 = 1 \<and> length label2 = 1
      then (if (of_char (hd label1) :: nat) \<le> of_char (hd label2)
            then label1 @ label2 else label2 @ label1)
      else if length label1 = 1 then label1 @ label2
      else if length label2 = 1 then label2 @ label1
      else if label1 = label2 then label1 @ label2
      else ''InsDel'')"

definition example_base_change_enum_from :: "string \<Rightarrow> GT21" where
  "example_base_change_enum_from label =
     (case find (\<lambda>g. base_change_label_from g = label) all_GT21 of
        Some g \<Rightarrow> g | None \<Rightarrow> GT21_InsDel)"

definition example_utils :: label_functions where
  "example_utils =
     \<lparr> base_change_enum_from = example_base_change_enum_from,
       partial_label_from = example_partial_label_from,
       mix_two_partial_labels = example_mix_two_partial_labels \<rparr>"

definition window_around :: "char \<Rightarrow> string" where
  "window_around c = replicate 16 CHR ''A'' @ [c] @ replicate 16 CHR ''A''"

text \<open>A tensor with ten reads of reference base \<open>C\<close> at the center and nothing else.\<close>

definition ten_reads_of_C :: tensor where
  "ten_reads_of_C position row ch =
     (if position = 16 \<and> row = 1 \<and> ch = Channel_reference then 10 else 0)"

text \<open>Length vectors with half of the mass on length \<open>0\<close> and half on length \<open>1\<close>.\<close>

definition half_at_zero_and_one :: length_probs where
  "half_at_zero_and_one k = (if k = 0 \<or> k = 1 then 1 / 2 else 0)"

text \<open>A site at which a homozygous SNP to \<open>A\<close> and a homozygous insertion of one base
  have the same joint probability \<open>1/8\<close>.\<close>

definition tie_site :: site where
  "tie_site =
     \<lparr> site_x = ten_reads_of_C,
       site_chromosome = ''chr1'',
       site_position = 100,
       site_reference_sequence = window_around CHR ''C'',
       site_gt21_probabilities =
         (\<lambda>g. if g = GT21_AA \<or> g = GT21_InsIns then 1 / 2 else 0),
       site_genotype_probabilities = (\<lambda>g. if g = homo_variant then 1 else 0),
       site_variant_length_probabilities_1 = half_at_zero_and_one,
       site_variant_length_probabilities_2 = half_at_zero_and_one \<rparr>"

text \<open>Length vectors with all mass on length \<open>0\<close>.\<close>

definition unit_at_zero :: length_probs where
  "unit_at_zero k = (if k = 0 then 1 else 0)"

text \<open>A site whose best class is the homozygous pair \<open>CC\<close>, the reference base being
  \<open>C\<close>, with the homozygous-variant genotype far ahead.\<close>

definition homo_SNP_site :: site where
  "homo_SNP_site =
     \<lparr> site_x = ten_reads_of_C,
       site_chromosome = ''chr1'',
       site_position = 100,
       site_reference_sequence = window_around CHR ''C'',
       site_gt21_probabilities = (\<lambda>g. if g = GT21_CC then 9 / 10 else 1 / 200),
       site_genotype_probabilities =
         (\<lambda>g. if g = homo_variant then 9 / 10 else if g = homo_reference then 1 / 20
              else if g = hetero_variant then 1 / 20 else 0),
       site_variant_length_probabilities_1 = unit_at_zero,
       site_variant_length_probabilities_2 = unit_at_zero \<rparr>"

text \<open>Two probabilities at which the odds \<open>(1 - p + \<epsilon>) / (p + \<epsilon>)\<close> are exactly
  \<open>10\<^sup>4\<close> and \<open>10\<^sup>3\<close>.\<close>

definition p_low :: real where
  "p_low = (1 - 9999 * epsilon) / 10001"

definition p_high :: real where
  "p_high = (1 - 999 * epsilon) / 1001"

definition default_args :: args where
  "default_args = \<lparr> showRef = False, debug = False, pysam_for_all_indel_bases = False, qual = None \<rparr>"

text \<open>An alignment file without reads.\<close>

definition no_alignments :: alignment_source where
  "no_alignments = \<lparr> pileup_columns = (\<lambda>contig start stop. []), fetch = (\<lambda>contig start end. []) \<rparr>"




text \<open>Probabilities of a homozygous insertion: class \<open>InsIns\<close> has probability \<open>1/2\<close>,
  every other class \<open>1/40\<close>, and the genotype is surely homozygous-variant.\<close>

definition insertion_gt21_probabilities :: gt21_probs where
  "insertion_gt21_probabilities g = (if g = GT21_InsIns then 1 / 2 else 1 / 40)"

definition homo_variant_surely :: genotype_probs where
  "homo_variant_surely g = (if g = homo_variant then 1 else 0)"

text \<open>Ten reads of \<open>C\<close> at the center; at the next position two reads insert an \<open>A\<close> and
  the SNP channel holds \<open>5\<close>.\<close>

definition more_SNP_than_insert :: tensor where
  "more_SNP_than_insert position row ch =
     (if position = 16 \<and> row = 1 \<and> ch = Channel_reference then 10
      else if position = 17 \<and> row = 0 \<and> ch = Channel_insert then 2
      else if position = 17 \<and> row = 2 \<and> ch = Channel_SNP then 5
      else 0)"

definition short_insertion_site :: site where
  "short_insertion_site =
     \<lparr> site_x = more_SNP_than_insert,
       site_chromosome = ''chr1'',
       site_position = 100,
       site_reference_sequence = window_around CHR ''C'',
       site_gt21_probabilities = insertion_gt21_probabilities,
       site_genotype_probabilities = homo_variant_surely,
       site_variant_length_probabilities_1 = unit_at_one,
       site_variant_length_probabilities_2 = unit_at_one \<rparr>"

text \<open>Length vectors with all mass on length \<open>16\<close>.\<close>

definition unit_at_sixteen :: length_probs where
  "unit_at_sixteen k = (if k = 16 then 1 else 0)"

text \<open>A homozygous insertion of length \<open>16\<close> with no insertion evidence in the window and
  no read in the alignment file.\<close>

definition long_insertion_site :: site where
  "long_insertion_site =
     \<lparr> site_x = ten_reads_of_C,
       site_chromosome = ''chr1'',
       site_position = 100,
       site_reference_sequence = window_around CHR ''C'',
       site_gt21_probabilities = insertion_gt21_probabilities,
       site_genotype_probabilities = homo_variant_surely,
       site_variant_length_probabilities_1 = unit_at_sixteen,
       site_variant_length_probabilities_2 = unit_at_sixteen \<rparr>"

text \<open>The same with eight reference reads at the last position of the window, where the
  inference walk then stops.\<close>

definition reads_at_window_end :: tensor where
  "reads_at_window_end position row ch =
     (if position = 16 \<and> row = 1 \<and> ch = Channel_reference then 10
      else if position = 32 \<and> row = 0 \<and> ch = Channel_reference then 8
      else 0)"

definition stopped_insertion_site :: site where
  "stopped_insertion_site = long_insertion_site \<lparr> site_x := reads_at_window_end \<rparr>"









section \<open>Verification of the length resolver\<close>

subsection \<open>The strict-maximum scan\<close>

lemma Max_insert_insert:
  "finite S \<Longrightarrow> Max (insert (a::real) (insert b S)) = Max (insert (max a b) S)"
  by (cases "S = {}") (simp_all add: max.assoc)

lemma strict_max_scan_snd:
  "snd (strict_max_scan xs st) = Max (insert (snd st) (snd ` set xs))"
proof (induction xs arbitrary: st)
  case Nil
  show ?case by simp
next
  case (Cons x xs)
  obtain c t where x: "x = (c, t)" by (cases x)
  have "Max (insert (snd st) (insert t (snd ` set xs))) = Max (insert (max (snd st) t) (snd ` set xs))"
    by (rule Max_insert_insert) simp
  with Cons show ?case by (simp add: x max_def)
qed

lemma strict_max_scan_fst:
  "(if Max (insert (snd st) (snd ` set xs)) > snd st
    then find (\<lambda>ct. snd ct = Max (insert (snd st) (snd ` set xs))) xs
           = Some (strict_max_scan xs st)
    else strict_max_scan xs st = st)"
proof (induction xs arbitrary: st)
  case Nil
  show ?case by simp
next
  case (Cons x xs)
  obtain c t where x: "x = (c, t)" by (cases x)
  define S where "S = snd ` set xs"
  define M where "M = Max (insert (snd st) (insert t S))"
  have fin: "finite S" by (simp add: S_def)
  have goal_eq: "Max (insert (snd st) (snd ` set (x # xs))) = M"
    by (simp add: M_def S_def x)
  show ?case
  proof (cases "t > snd st")
    case True
    define M' where "M' = Max (insert t S)"
    have ge: "t \<le> M'" unfolding M'_def using fin by (intro Max_ge) simp_all
    have "M = max (snd st) M'"
      unfolding M_def M'_def using fin by (intro Max_insert) simp_all
    with True ge have M: "M = M'" by simp
    have IH: "if t < M' then find (\<lambda>ct. snd ct = M') xs = Some (strict_max_scan xs (c, t))
              else strict_max_scan xs (c, t) = (c, t)"
      using Cons [of "(c, t)"] unfolding M'_def S_def snd_conv .
    have scan: "strict_max_scan (x # xs) st = strict_max_scan xs (c, t)"
      using True by (simp add: x)
    have lt: "snd st < M" using True ge M by simp
    show ?thesis
    proof (cases "t = M'")
      case True
      with IH have "strict_max_scan xs (c, t) = (c, t)" by simp
      with True lt show ?thesis unfolding goal_eq scan by (simp add: x M)
    next
      case False
      with ge have "t < M'" by simp
      with IH False lt show ?thesis unfolding goal_eq scan by (simp add: x M)
    qed
  next
    case False
    define M' where "M' = Max (insert (snd st) S)"
    have "M = Max (insert (max (snd st) t) S)"
      unfolding M_def using fin by (rule Max_insert_insert)
    with False have M: "M = M'" by (simp add: M'_def max_absorb1)
    have IH: "if snd st < M' then find (\<lambda>ct. snd ct = M') xs = Some (strict_max_scan xs st)
              else strict_max_scan xs st = st"
      using Cons [of st] unfolding M'_def S_def .
    have scan: "strict_max_scan (x # xs) st = strict_max_scan xs st"
      using False by (simp add: x)
    from IH False show ?thesis unfolding goal_eq scan by (auto simp: x M)
  qed
qed

subsection \<open>Every source loop is a strict-maximum scan of its candidates\<close>

lemma strict_max_scan_append:
  "strict_max_scan (xs @ ys) st = strict_max_scan ys (strict_max_scan xs st)"
  by (induction xs st rule: strict_max_scan.induct) simp_all

lemma fold_homo_Ins:
  "(case fold (homo_Ins_body v1 v2) is st of (l, p) \<Rightarrow> ((l, l), p)) =
   strict_max_scan (map (\<lambda>i. ((int i, int i), v1 (int i) * v2 (int i))) is)
     (case st of (l, p) \<Rightarrow> ((l, l), p))"
  by (induction "is" arbitrary: st) (auto simp: homo_Ins_body_def Let_def split: prod.splits)

lemma fold_hetero_Ins:
  "(case fold (hetero_Ins_body v1 v2) is st of (l, p) \<Rightarrow> ((0, l), p)) =
   strict_max_scan (concat (map (\<lambda>i. [((0, int i), v1 0 * v2 (int i)),
                             ((0, int i), v1 (int i) * v2 0)]) is))
     (case st of (l, p) \<Rightarrow> ((0, l), p))"
  by (induction "is" arbitrary: st) (auto simp: hetero_Ins_body_def Let_def split: prod.splits)

lemma fold_InsIns_inner:
  "fold (hetero_InsIns_body v1 v2 i) js st =
   strict_max_scan (map (\<lambda>j. ((int (min i j), int (max i j)), v1 (int i) * v2 (int j))) js) st"
  by (induction js arbitrary: st) (auto simp: hetero_InsIns_body_def Let_def min_def max_def split: prod.splits)

lemma fold_InsIns:
  "fold (\<lambda>i. fold (hetero_InsIns_body v1 v2 i) js) is st =
   strict_max_scan (concat (map (\<lambda>i.
       map (\<lambda>j. ((int (min i j), int (max i j)), v1 (int i) * v2 (int j))) js) is)) st"
  by (induction "is" arbitrary: st) (simp_all add: strict_max_scan_append fold_InsIns_inner)

lemma fold_DelDel_inner:
  "fold (hetero_DelDel_body v1 v2 i) js st =
   strict_max_scan (map (\<lambda>j. ((int (min i j), int (max i j)), v1 (- int i) * v2 (- int j)))
      (filter (\<lambda>j. i \<noteq> j) js)) st"
  by (induction js arbitrary: st) (auto simp: hetero_DelDel_body_def Let_def min_def max_def split: prod.splits)

lemma fold_DelDel:
  "fold (\<lambda>i. fold (hetero_DelDel_body v1 v2 i) js) is st =
   strict_max_scan (concat (map (\<lambda>i.
       map (\<lambda>j. ((int (min i j), int (max i j)), v1 (- int i) * v2 (- int j)))
        (filter (\<lambda>j. i \<noteq> j) js)) is)) st"
  by (induction "is" arbitrary: st) (simp_all add: strict_max_scan_append fold_DelDel_inner)

lemma fold_InsDel_inner:
  "fold (hetero_InsDel_body v1 v2 i) js st =
   strict_max_scan (concat (map (\<lambda>j.
            [((int j, int i), v1 (int i) * v2 (- int j)),
             ((int i, int j), v1 (- int i) * v2 (int j))]) js)) st"
  by (induction js arbitrary: st) (auto simp: hetero_InsDel_body_def Let_def split: prod.splits)

lemma fold_InsDel:
  "fold (\<lambda>i. fold (hetero_InsDel_body v1 v2 i) js) is st =
   strict_max_scan (concat (map (\<lambda>i. concat (map (\<lambda>j.
            [((int j, int i), v1 (int i) * v2 (- int j)),
             ((int i, int j), v1 (- int i) * v2 (int j))]) js)) is)) st"
  by (induction "is" arbitrary: st) (simp_all add: strict_max_scan_append fold_InsDel_inner)

lemma fold_homo_Del:
  "(case fold (homo_Del_body v1 v2) is st of (l, p) \<Rightarrow> ((l, l), p)) =
   strict_max_scan (map (\<lambda>i. ((int i, int i), v1 (- int i) * v2 (- int i))) is)
     (case st of (l, p) \<Rightarrow> ((l, l), p))"
  by (induction "is" arbitrary: st) (auto simp: homo_Del_body_def Let_def split: prod.splits)

lemma fold_hetero_Del:
  "(case fold (hetero_Del_body v1 v2) is st of (l, p) \<Rightarrow> ((0, l), p)) =
   strict_max_scan (concat (map (\<lambda>i. [((0, int i), v1 0 * v2 (- int i)),
                             ((0, int i), v1 (- int i) * v2 0)]) is))
     (case st of (l, p) \<Rightarrow> ((0, l), p))"
  by (induction "is" arbitrary: st) (auto simp: hetero_Del_body_def Let_def split: prod.splits)

lemma resolve_scan:
  "(case resolve n v1 v2 sh of (l1, l2, p) \<Rightarrow> ((l1, l2), p)) =
   strict_max_scan (scanned_search_space n v1 v2 sh) (initial_lengths sh, 0)"
proof (cases sh)
  case (Homozygous k)
  show ?thesis
  proof (cases k)
    case Insertion
    with Homozygous show ?thesis
      using fold_homo_Ins [of v1 v2 "[1..<Suc n]" "(0, 0)"]
      by (simp add: resolve_def insertion_length_tuple_from_def scanned_search_space_def
          search_space_def signed_def initial_lengths_def split: prod.splits del: upt_Suc)
  next
    case Deletion
    with Homozygous show ?thesis
      using fold_homo_Del [of v1 v2 "[1..<Suc n]" "(0, 0)"]
      by (simp add: resolve_def deletion_length_tuple_from_def scanned_search_space_def
          search_space_def signed_def initial_lengths_def split: prod.splits del: upt_Suc)
  qed
next
  case (Hetero_single k)
  show ?thesis
  proof (cases k)
    case Insertion
    with Hetero_single show ?thesis
      using fold_hetero_Ins [of v1 v2 "[1..<Suc n]" "(0, 0)"]
      by (simp add: resolve_def insertion_length_tuple_from_def scanned_search_space_def
          search_space_def signed_def initial_lengths_def split: prod.splits del: upt_Suc)
  next
    case Deletion
    with Hetero_single show ?thesis
      using fold_hetero_Del [of v1 v2 "[1..<Suc n]" "(0, 0)"]
      by (simp add: resolve_def deletion_length_tuple_from_def scanned_search_space_def
          search_space_def signed_def initial_lengths_def split: prod.splits del: upt_Suc)
  qed
next
  case (Hetero_double k)
  show ?thesis
  proof (cases k)
    case Insertion
    with Hetero_double show ?thesis
      by (simp add: resolve_def insertion_length_tuple_from_def scanned_search_space_def
          search_space_def signed_def initial_lengths_def fold_InsIns split: prod.splits del: upt_Suc)
  next
    case Deletion
    with Hetero_double show ?thesis
      by (simp add: resolve_def deletion_length_tuple_from_def scanned_search_space_def
          search_space_def signed_def initial_lengths_def fold_DelDel split: prod.splits del: upt_Suc)
  qed
next
  case Hetero_mixed
  then show ?thesis
    by (simp add: resolve_def insertion_and_deletion_length_tuple_from_def
        scanned_search_space_def search_space_def initial_lengths_def fold_InsDel
        split: prod.splits del: upt_Suc)
qed

subsection \<open>What a resolver returns\<close>

lemma strict_max_scan_mem:
  "strict_max_scan xs st = st \<or> strict_max_scan xs st \<in> set xs"
proof (induction xs arbitrary: st)
  case Nil
  show ?case by simp
next
  case (Cons x xs)
  obtain c t where x: "x = (c, t)" by (cases x)
  from Cons [of "if t > snd st then (c, t) else st"] show ?case
    by (auto simp: x)
qed

lemma search_space_scores:
  "\<forall>k. 0 \<le> v1 k \<and> 0 \<le> v2 k \<Longrightarrow> c \<in> set (search_space sk n v1 v2 sh) \<Longrightarrow> 0 \<le> snd c"
  by (cases sh) (auto simp: search_space_def simp del: upt_Suc)

lemma search_space_double_ordered:
  "c \<in> set (search_space sk n v1 v2 (Hetero_double k)) \<Longrightarrow> fst (fst c) \<le> snd (fst c)"
  by (auto simp: search_space_def simp del: upt_Suc)

lemma search_space_homozygous_equal:
  "c \<in> set (search_space sk n v1 v2 (Homozygous k)) \<Longrightarrow> fst (fst c) = snd (fst c)"
  by (auto simp: search_space_def simp del: upt_Suc)

lemma resolve_cases:
  assumes "resolve n v1 v2 sh = (l1, l2, p)"
  shows "((l1, l2), p) = (initial_lengths sh, 0) \<or> ((l1, l2), p) \<in> set (scanned_search_space n v1 v2 sh)"
  using resolve_scan [of n v1 v2 sh]
    strict_max_scan_mem [of "scanned_search_space n v1 v2 sh" "(initial_lengths sh, 0)"] assms
  by simp

lemma Max_insert_zero_nonneg:
  assumes "finite S" "S \<noteq> {}" "\<And>x. x \<in> S \<Longrightarrow> (0::real) \<le> x"
  shows "Max (insert 0 S) = Max S"
proof -
  from assms obtain x where "x \<in> S" by blast
  with assms have "0 \<le> Max S" by (meson Max_ge order_trans)
  with assms show ?thesis by (simp add: max_absorb2)
qed

text \<open>
  Claim C1, as the source has it.  Whatever the two vectors and the shape, the joint
  probability a resolver returns is the largest of zero and the scores of the search space
  the source scans (for insertion/insertion this includes the pairs \<open>i = j\<close>).  When it
  is positive, the returned lengths are those of the first candidate, in scan order, that
  attains it; otherwise they are the lengths the resolver started from.  For non-negative
  vectors and a non-empty search space the probability is the maximum of the scores.
\<close>

theorem resolver_returns_first_maximum:
  assumes "resolve n v1 v2 sh = (l1, l2, p)"
  shows "p = Max (insert 0 (snd ` set (scanned_search_space n v1 v2 sh))) \<and>
         (if 0 < p
          then find (\<lambda>c. snd c = p) (scanned_search_space n v1 v2 sh) = Some ((l1, l2), p)
          else (l1, l2) = initial_lengths sh) \<and>
         ((\<forall>k. 0 \<le> v1 k \<and> 0 \<le> v2 k) \<and> scanned_search_space n v1 v2 sh \<noteq> []
            \<longrightarrow> p = Max (snd ` set (scanned_search_space n v1 v2 sh)))"
proof -
  let ?xs = "scanned_search_space n v1 v2 sh"
  let ?st = "(initial_lengths sh, 0::real)"
  have scan: "strict_max_scan ?xs ?st = ((l1, l2), p)"
    using resolve_scan [of n v1 v2 sh] assms by simp
  have p: "p = Max (insert 0 (snd ` set ?xs))"
    using strict_max_scan_snd [of ?xs ?st] scan by simp
  have lens: "if 0 < p then find (\<lambda>c. snd c = p) ?xs = Some ((l1, l2), p)
              else (l1, l2) = initial_lengths sh"
    using strict_max_scan_fst [of ?st ?xs] scan p by (simp split: if_splits)
  have "p = Max (snd ` set ?xs)" if nn: "\<forall>k. 0 \<le> v1 k \<and> 0 \<le> v2 k" and ne: "?xs \<noteq> []"
  proof -
    have "0 \<le> x" if "x \<in> snd ` set ?xs" for x
    proof -
      from that obtain c where "c \<in> set ?xs" "x = snd c" by auto
      with nn show ?thesis
        using search_space_scores [of v1 v2 c] by (simp add: scanned_search_space_def)
    qed
    with ne have "Max (insert 0 (snd ` set ?xs)) = Max (snd ` set ?xs)"
      by (intro Max_insert_zero_nonneg) simp_all
    with p show ?thesis by simp
  qed
  with p lens show ?thesis by blast
qed

theorem resolver_returns_first_maximum_witness:
  "resolve 2 unit_at_one half_at_three (Hetero_single Deletion) = (0, 0, 0) \<and>
   resolve 4 half_at_three half_at_three (Hetero_double Insertion) = (3, 3, 1 / 4) \<and>
   (1 / 4 :: real) = Max (snd ` set (scanned_search_space 4 half_at_three half_at_three (Hetero_double Insertion))) \<and>
   find (\<lambda>c. snd c = 1 / 4) (scanned_search_space 4 half_at_three half_at_three (Hetero_double Insertion))
     = Some ((3, 3), 1 / 4)"
proof -
  have a: "resolve 2 unit_at_one half_at_three (Hetero_single Deletion) = (0, 0, 0)"
    by code_simp
  have b: "resolve 4 half_at_three half_at_three (Hetero_double Insertion) = (3, 3, 1 / 4)"
    by code_simp
  have nn: "\<forall>k. 0 \<le> half_at_three k \<and> 0 \<le> half_at_three k"
    by (simp add: half_at_three_def)
  have ne: "scanned_search_space 4 half_at_three half_at_three (Hetero_double Insertion) \<noteq> []"
    by code_simp
  from resolver_returns_first_maximum [OF b] nn ne a b show ?thesis by simp
qed

text \<open>
  Claim C1, as the specification words it, fails: with all mass on length \<open>1\<close> the
  insertion/insertion resolver returns the probability \<open>1\<close> of the pair \<open>(1, 1)\<close>,
  while every score of the specification's search space \<open>i \<noteq> j\<close> is \<open>0\<close>.
\<close>

lemma spec_double_strict:
  "c \<in> set (spec_search_space n v1 v2 (Hetero_double k)) \<Longrightarrow> fst (fst c) < snd (fst c)"
  by (auto simp: spec_search_space_def search_space_def simp del: upt_Suc)

lemma spec_double_unit_scores:
  "c \<in> set (spec_search_space n unit_at_one unit_at_one (Hetero_double Insertion)) \<Longrightarrow> snd c = 0"
  by (auto simp: spec_search_space_def search_space_def signed_def unit_at_one_def simp del: upt_Suc)

theorem resolver_maximum_counterexample:
  "resolve 16 unit_at_one unit_at_one (Hetero_double Insertion) = (1, 1, 1) \<and>
   Max (snd ` set (spec_search_space 16 unit_at_one unit_at_one (Hetero_double Insertion))) = 0"
proof -
  let ?xs = "spec_search_space 16 unit_at_one unit_at_one (Hetero_double Insertion)"
  have ne: "?xs \<noteq> []"
    by (simp add: spec_search_space_def search_space_def upt_conv_Cons del: upt_Suc)
  then have "Max (snd ` set ?xs) \<in> snd ` set ?xs" by (intro Max_in) simp_all
  then have "Max (snd ` set ?xs) = 0" using spec_double_unit_scores by auto
  moreover have "resolve 16 unit_at_one unit_at_one (Hetero_double Insertion) = (1, 1, 1)"
    by code_simp
  ultimately show ?thesis by simp
qed

subsection \<open>The double and the homozygous scans\<close>

lemma scanned_double_Ins_scores:
  "snd ` set (scanned_search_space n v1 v2 (Hetero_double Insertion)) =
   {v1 (int i) * v2 (int j) | i j. i \<in> {1..n} \<and> j \<in> {1..n}}"
  by (auto simp: scanned_search_space_def search_space_def signed_def image_iff simp del: upt_Suc) force+

lemma scanned_double_Del_scores:
  "snd ` set (scanned_search_space n v1 v2 (Hetero_double Deletion)) =
   {v1 (- int i) * v2 (- int j) | i j. i \<in> {1..n} \<and> j \<in> {1..n} \<and> i \<noteq> j}"
  by (auto simp: scanned_search_space_def search_space_def signed_def image_iff simp del: upt_Suc) force+

text \<open>
  Claim C2, as the source has it.  The insertion/insertion resolver scans all pairs of
  \<open>1..n\<close>, the pairs \<open>i = j\<close> included; the deletion/deletion resolver scans the pairs
  \<open>i \<noteq> j\<close>.  Both return \<open>length1 \<le> length2\<close>, and the homozygous resolvers return
  \<open>length1 = length2\<close>.
\<close>

theorem double_scans_and_length_order:
  "(case resolve n v1 v2 (Hetero_double Insertion) of (l1, l2, p) \<Rightarrow>
      l1 \<le> l2 \<and>
      p = Max (insert 0 {v1 (int i) * v2 (int j) | i j. i \<in> {1..n} \<and> j \<in> {1..n}})) \<and>
   (case resolve n v1 v2 (Hetero_double Deletion) of (l1, l2, p) \<Rightarrow>
      l1 \<le> l2 \<and>
      p = Max (insert 0 {v1 (- int i) * v2 (- int j) | i j. i \<in> {1..n} \<and> j \<in> {1..n} \<and> i \<noteq> j})) \<and>
   (case resolve n v1 v2 (Homozygous k) of (l1, l2, p) \<Rightarrow> l1 = l2)"
proof -
  have ordered: "l1 \<le> l2" if "resolve n v1 v2 (Hetero_double k') = (l1, l2, p)" for k' l1 l2 p
    using resolve_cases [OF that] search_space_double_ordered [of "((l1, l2), p)" _ n v1 v2 k']
    by (auto simp: initial_lengths_def scanned_search_space_def)
  have equal: "l1 = l2" if "resolve n v1 v2 (Homozygous k) = (l1, l2, p)" for l1 l2 p
    using resolve_cases [OF that] search_space_homozygous_equal [of "((l1, l2), p)" _ n v1 v2 k]
    by (auto simp: initial_lengths_def scanned_search_space_def)
  have prob: "p = Max (insert 0 (snd ` set (scanned_search_space n v1 v2 sh)))"
    if "resolve n v1 v2 sh = (l1, l2, p)" for sh l1 l2 p
  proof -
    have "strict_max_scan (scanned_search_space n v1 v2 sh) (initial_lengths sh, 0) = ((l1, l2), p)"
      using resolve_scan [of n v1 v2 sh] that by simp
    then show ?thesis
      using strict_max_scan_snd [of "scanned_search_space n v1 v2 sh" "(initial_lengths sh, 0)"]
      by simp
  qed
  show ?thesis
    using ordered equal prob [of "Hetero_double Insertion"] prob [of "Hetero_double Deletion"]
    by (auto simp: scanned_double_Ins_scores scanned_double_Del_scores split: prod.splits)
qed

theorem double_scans_and_length_order_witness:
  "resolve 3 half_at_three unit_at_one (Hetero_double Insertion) = (1, 3, 1 / 2) \<and>
   (1 / 2 :: real) = Max (insert 0 {half_at_three (int i) * unit_at_one (int j) | i j. i \<in> {1..3} \<and> j \<in> {1..3}}) \<and>
   resolve 3 half_at_three unit_at_one (Hetero_double Deletion) = (0, 0, 0) \<and> 
   resolve 3 half_at_three unit_at_one (Homozygous Insertion) = (0, 0, 0)"
proof -
  have a: "resolve 3 half_at_three unit_at_one (Hetero_double Insertion) = (1, 3, 1 / 2)"
    by code_simp
  have b: "resolve 3 half_at_three unit_at_one (Hetero_double Deletion) = (0, 0, 0)"
    by code_simp
  have c: "resolve 3 half_at_three unit_at_one (Homozygous Insertion) = (0, 0, 0)"
    by code_simp
  from double_scans_and_length_order
    [where n = 3 and ?v1.0 = half_at_three and ?v2.0 = unit_at_one and k = Insertion] a b c
  show ?thesis by simp
qed

text \<open>
  Claim C2, as the specification words it, fails for insertion/insertion: with mass
  \<open>1/2\<close> on length \<open>3\<close> in both vectors the resolver returns the pair \<open>(3, 3)\<close> with
  probability \<open>1/4\<close>, a pair \<open>i = j\<close> that is no member of the search space \<open>i \<noteq> j\<close>.
\<close>

theorem double_scan_counterexample:
  "resolve 16 half_at_three half_at_three (Hetero_double Insertion) = (3, 3, 1 / 4) \<and>
   (3, 3) \<notin> fst ` set (spec_search_space 16 half_at_three half_at_three (Hetero_double Insertion))"
proof -
  have "resolve 16 half_at_three half_at_three (Hetero_double Insertion) = (3, 3, 1 / 4)"
    by code_simp
  moreover have "(3, 3) \<notin> fst ` set (spec_search_space 16 half_at_three half_at_three (Hetero_double Insertion))"
    using spec_double_strict [of _ 16 half_at_three half_at_three Insertion] by force
  ultimately show ?thesis by simp
qed

section \<open>Verification of the hypothesis scorer\<close>

lemma maximum_probability_Max:
  "maximum_probability sc = Max (set (score_list sc))"
  unfolding maximum_probability_def score_list_def
  by (simp only: list.sel Max.set_eq_fold)

lemma winner_flags_map:
  "winner_flags sc = map (\<lambda>p. maximum_probability sc = p) (score_list sc)"
  by (simp add: winner_flags_def score_list_def is_reference_def is_homo_SNP_def
      is_hetero_SNP_def is_homo_insertion_def is_homo_deletion_def is_hetero_ACGT_Ins_def
      is_hetero_InsIns_def is_hetero_ACGT_Del_def is_hetero_DelDel_def
      is_insertion_and_deletion_def)

lemma some_flag_set: "True \<in> set (winner_flags sc)"
proof -
  have "score_list sc \<noteq> []" by (simp add: score_list_def)
  then have "Max (set (score_list sc)) \<in> set (score_list sc)" by (intro Max_in) simp_all
  then show ?thesis
    unfolding winner_flags_map maximum_probability_Max by force
qed

lemma filter_id_map: "length (filter id (map P xs)) = length (filter P xs)"
  by (induction xs) simp_all

text \<open>
  Claim C3, as the source has it.  Each of the ten winner flags is the test whether its
  hypothesis' joint probability equals the maximum of the ten.  So at least one flag is
  set, and the number of flags set is the number of hypotheses that attain the maximum:
  one flag when the maximum is attained once, several on an exact tie.
\<close>

theorem winner_flags_follow_the_maximum:
  "winner_flags (site_scores k utils s) =
     map (\<lambda>p. p = Max (set (score_list (site_scores k utils s))))
       (score_list (site_scores k utils s)) \<and>
   True \<in> set (winner_flags (site_scores k utils s)) \<and>
   length (filter id (winner_flags (site_scores k utils s))) =
     length (filter (\<lambda>p. p = Max (set (score_list (site_scores k utils s))))
       (score_list (site_scores k utils s)))"
proof -
  let ?sc = "site_scores k utils s"
  have "winner_flags ?sc = map (\<lambda>p. p = Max (set (score_list ?sc))) (score_list ?sc)"
    unfolding winner_flags_map maximum_probability_Max by (simp add: eq_commute)
  then show ?thesis using some_flag_set [of ?sc] by (simp add: filter_id_map)
qed

theorem winner_flags_follow_the_maximum_witness:
  "winner_flags (site_scores constants_16 example_utils homo_SNP_site) =
     [False, True, False, False, False, False, False, False, False, False] \<and>
   length (filter (\<lambda>p. p = Max (set (score_list (site_scores constants_16 example_utils homo_SNP_site))))
     (score_list (site_scores constants_16 example_utils homo_SNP_site))) = 1"
proof -
  have ev: "winner_flags (site_scores constants_16 example_utils homo_SNP_site) =
     [False, True, False, False, False, False, False, False, False, False]"
    by code_simp
  from winner_flags_follow_the_maximum [of constants_16 example_utils homo_SNP_site]
  have "length (filter id (winner_flags (site_scores constants_16 example_utils homo_SNP_site))) =
     length (filter (\<lambda>p. p = Max (set (score_list (site_scores constants_16 example_utils homo_SNP_site))))
       (score_list (site_scores constants_16 example_utils homo_SNP_site)))"
    by blast
  with ev show ?thesis by simp
qed

text \<open>
  Claim C3, as the specification words it, fails: at \<open>tie_site\<close> the homozygous SNP and
  the homozygous insertion both have the maximal joint probability, and both flags are
  set.
\<close>

theorem winner_flags_counterexample:
  "winner_flags (site_scores constants_16 example_utils tie_site) =
     [False, True, False, True, False, False, False, False, False, False]"
  by code_simp

section \<open>Verification of the quality score\<close>

lemma epsilon_pos: "0 < epsilon"
  by (simp add: epsilon_def)

lemma epsilon_small: "epsilon \<le> 1 / 10 ^ 5"
proof -
  have "(10::real) ^ 5 \<le> 10 ^ 300" by (rule power_increasing) simp_all
  then show ?thesis unfolding epsilon_def by (simp add: frac_le del: power_numeral)
qed

lemma tmp_of_probability_log:
  "tmp_of_probability p = 33 - 10 * log 10 (((1 - p) + epsilon) / (p + epsilon))"
  by (simp add: tmp_of_probability_def log_def)

lemma odds_antimono:
  assumes "0 < p" "p \<le> q" "q < 1"
  shows "((1 - q) + epsilon) / (q + epsilon) \<le> ((1 - p) + epsilon) / (p + epsilon)"
    and "0 < ((1 - q) + epsilon) / (q + epsilon)"
proof -
  have e: "0 < epsilon" by (rule epsilon_pos)
  show "((1 - q) + epsilon) / (q + epsilon) \<le> ((1 - p) + epsilon) / (p + epsilon)"
    using assms e by (intro frac_le) simp_all
  show "0 < ((1 - q) + epsilon) / (q + epsilon)"
    using assms e by simp
qed

lemma tmp_of_probability_mono:
  assumes "0 < p" "p \<le> q" "q < 1"
  shows "tmp_of_probability p \<le> tmp_of_probability q"
proof -
  have "log 10 (((1 - q) + epsilon) / (q + epsilon)) \<le> log 10 (((1 - p) + epsilon) / (p + epsilon))"
    using odds_antimono [OF assms] by (subst log_le_cancel_iff) (auto intro: less_le_trans)
  then show ?thesis by (simp add: tmp_of_probability_log)
qed

lemma quality_of_probability_Inr:
  assumes "0 < p" "p < 1"
  shows "quality_of_probability p = Inr (round (tmp_of_probability p * tmp_of_probability p))"
proof -
  have "0 < ((1 - p) + epsilon) / (p + epsilon)" "p + epsilon \<noteq> 0"
    using assms epsilon_pos by (simp_all add: add_pos_pos less_imp_neq [THEN not_sym])
  then show ?thesis by (simp add: quality_of_probability_def Let_def)
qed

text \<open>
  Claim C4, as the source has it.  For probabilities \<open>0 < p \<le> q < 1\<close> the quality
  scores are non-negative integers.  The score is the rounded square of
  \<open>tmp = 33 - 10 log\<^sub>1\<^sub>0 ((1 - p + \<epsilon>) / (p + \<epsilon>))\<close>, which grows with \<open>p\<close>; so the
  score does not decrease from \<open>p\<close> to \<open>q\<close> when \<open>tmp\<close> is non-negative at \<open>p\<close>, and
  it does not increase when \<open>tmp\<close> is non-positive at \<open>q\<close>.
\<close>

theorem quality_is_nonnegative_and_monotone_beyond_zero_crossing:
  assumes "0 < p" "p \<le> q" "q < 1"
  shows "\<exists>a b. quality_of_probability p = Inr a \<and> quality_of_probability q = Inr b \<and>
           0 \<le> a \<and> 0 \<le> b \<and>
           (0 \<le> tmp_of_probability p \<longrightarrow> a \<le> b) \<and>
           (tmp_of_probability q \<le> 0 \<longrightarrow> b \<le> a)"
proof -
  let ?a = "round (tmp_of_probability p * tmp_of_probability p)"
  let ?b = "round (tmp_of_probability q * tmp_of_probability q)"
  from assms have p1: "p < 1" and q0: "0 < q" by simp_all
  have a: "quality_of_probability p = Inr ?a" using assms(1) p1 by (rule quality_of_probability_Inr)
  have b: "quality_of_probability q = Inr ?b" using q0 assms(3) by (rule quality_of_probability_Inr)
  have mono: "tmp_of_probability p \<le> tmp_of_probability q" using assms by (rule tmp_of_probability_mono)
  have nn: "0 \<le> round (x * x)" for x :: real
    using round_mono [of 0 "x * x"] by simp
  have up: "?a \<le> ?b" if "0 \<le> tmp_of_probability p"
    using that mono by (intro round_mono mult_mono) simp_all
  have down: "?b \<le> ?a" if "tmp_of_probability q \<le> 0"
  proof -
    have "(- tmp_of_probability q) * (- tmp_of_probability q) \<le> (- tmp_of_probability p) * (- tmp_of_probability p)"
      using that mono by (intro mult_mono) simp_all
    then show ?thesis by (intro round_mono) simp
  qed
  from a b nn up down show ?thesis by blast
qed

lemma p_low_odds: "((1 - p_low) + epsilon) / (p_low + epsilon) = 10 ^ 4"
proof -
  have "0 < 1 + 2 * epsilon" using epsilon_pos by simp
  then show ?thesis by (simp add: p_low_def field_simps)
qed

lemma p_high_odds: "((1 - p_high) + epsilon) / (p_high + epsilon) = 10 ^ 3"
proof -
  have "0 < 1 + 2 * epsilon" using epsilon_pos by simp
  then show ?thesis by (simp add: p_high_def field_simps)
qed

lemma p_low_high: "0 < p_low" "p_low < p_high" "p_high < 1"
  using epsilon_pos epsilon_small by (simp_all add: p_low_def p_high_def field_simps)

lemma tmp_p_low: "tmp_of_probability p_low = - 7"
  unfolding tmp_of_probability_log p_low_odds by (simp add: log_pow_cancel del: power_numeral)

lemma tmp_p_high: "tmp_of_probability p_high = 3"
  unfolding tmp_of_probability_log p_high_odds by (simp add: log_pow_cancel del: power_numeral)

text \<open>
  Claim C4, as the specification words it, fails: \<open>p_low < p_high\<close> are both in
  \<open>(0, 1)\<close>, with \<open>tmp = -7\<close> and \<open>tmp = 3\<close>, and the score falls from \<open>49\<close> to
  \<open>9\<close>.
\<close>

theorem quality_monotone_counterexample:
  "0 < p_low \<and> p_low < p_high \<and> p_high < 1 \<and>
   quality_of_probability p_low = Inr 49 \<and> quality_of_probability p_high = Inr 9"
proof -
  have "p_low < 1" "0 < p_high" using p_low_high by simp_all
  then show ?thesis
    using p_low_high quality_of_probability_Inr [of p_low] quality_of_probability_Inr [of p_high]
    by (simp add: tmp_p_low tmp_p_high)
qed

theorem quality_is_nonnegative_and_monotone_witness:
  "0 < p_high \<and> p_high \<le> 1 / 2 \<and> (1 / 2 :: real) < 1 \<and> 0 \<le> tmp_of_probability p_high \<and>
   (\<exists>a b. quality_of_probability p_high = Inr a \<and> quality_of_probability (1 / 2) = Inr b \<and>
      0 \<le> a \<and> a \<le> b)"
proof -
  have h1: "0 < p_high" using p_low_high by simp
  have h2: "p_high \<le> 1 / 2"
    using epsilon_pos by (simp add: p_high_def field_simps)
  have h3: "(1 / 2 :: real) < 1" by simp
  have h4: "0 \<le> tmp_of_probability p_high" by (simp add: tmp_p_high)
  from quality_is_nonnegative_and_monotone_beyond_zero_crossing [OF h1 h2 h3] h4
  have "\<exists>a b. quality_of_probability p_high = Inr a \<and> quality_of_probability (1 / 2) = Inr b \<and>
      0 \<le> a \<and> a \<le> b"
    by blast
  with h1 h2 h3 h4 show ?thesis by blast
qed

section \<open>Verification of the record composer\<close>

subsection \<open>When a site yields a record\<close>

lemma quality_of_probability_closed:
  assumes "0 \<le> p" "p \<le> 1"
  shows "\<exists>q. quality_of_probability p = Inr q \<and> 0 \<le> q"
proof -
  have "0 < ((1 - p) + epsilon) / (p + epsilon)" "p + epsilon \<noteq> 0"
    using assms epsilon_pos by (simp_all add: add_nonneg_pos less_imp_neq [THEN not_sym])
  moreover have "0 \<le> round (x * x)" for x :: real
    using round_mono [of 0 "x * x"] by simp
  ultimately show ?thesis by (simp add: quality_of_probability_def Let_def)
qed

lemma quality_score_from_Inr:
  assumes "\<forall>g. 0 \<le> gp g \<and> gp g \<le> 1" "\<forall>g. 0 \<le> genp g \<and> genp g \<le> 1"
  shows "\<exists>q. quality_score_from utils reference_base alternate_base genotype_string gp genp = Inr q \<and> 0 \<le> q"
proof -
  have "\<exists>q. quality_of_probability (gp g * genp ge) = Inr q \<and> 0 \<le> q" for g ge
    using assms by (intro quality_of_probability_closed) (simp_all add: mult_le_one)
  then show ?thesis
    unfolding quality_score_from_def Let_def by (simp split: if_splits)
qed

lemma Output_site_record:
  assumes "flanking_base_number k < length (site_reference_sequence s)"
    and "\<not> debug a"
    and "showRef a \<or> \<not> is_reference (site_scores k utils s)"
    and "read_depth k s \<noteq> 0"
    and "compose_alleles k a src s (site_scores k utils s) = Inr (Alleles ref alt gs lg)"
    and "ref \<noteq> []" "alt \<noteq> []"
    and "supported_reads_count k s (site_scores k utils s) ref alt = Inr cnt"
    and "quality_score_from utils ref alt gs (site_gt21_probabilities s)
           (site_genotype_probabilities s) = Inr q"
  shows "Output_site k utils a src s =
           Record_line \<lparr> CHROM = site_chromosome s, POS = site_position s, REF = ref, ALT = alt,
             QUAL = q, FILTER = filtration_value_from (qual a) q, INFO = info_from k lg,
             GT = gs, GQ = q, DP = read_depth k s,
             AF = allele_frequency cnt (read_depth k s) \<rparr>"
  using assms by (simp add: Output_site_def Let_def)

lemma Output_site_Record_lineD:
  assumes "Output_site k utils a src s = Record_line r"
  shows "\<exists>ref alt gs lg cnt q.
           compose_alleles k a src s (site_scores k utils s) = Inr (Alleles ref alt gs lg) \<and>
           ref \<noteq> [] \<and> alt \<noteq> [] \<and> read_depth k s \<noteq> 0 \<and> \<not> debug a \<and>
           flanking_base_number k < length (site_reference_sequence s) \<and>
           supported_reads_count k s (site_scores k utils s) ref alt = Inr cnt \<and>
           quality_score_from utils ref alt gs (site_gt21_probabilities s)
             (site_genotype_probabilities s) = Inr q \<and>
           r = \<lparr> CHROM = site_chromosome s, POS = site_position s, REF = ref, ALT = alt,
             QUAL = q, FILTER = filtration_value_from (qual a) q, INFO = info_from k lg,
             GT = gs, GQ = q, DP = read_depth k s,
             AF = allele_frequency cnt (read_depth k s) \<rparr>"
  using assms
  by (auto simp: Output_site_def Let_def skip_site_def
      split: if_splits sum.splits composed.splits)

subsection \<open>A site with a homozygous SNP to the reference base\<close>

lemma homo_SNP_site_alleles:
  "compose_alleles constants_16 default_args no_alignments homo_SNP_site
     (site_scores constants_16 example_utils homo_SNP_site) = Inr (Alleles ''C'' ''C'' ''1/1'' 0)"
  by code_simp

lemma homo_SNP_site_facts:
  "flanking_base_number constants_16 < length (site_reference_sequence homo_SNP_site)"
  "\<not> debug default_args"
  "\<not> is_reference (site_scores constants_16 example_utils homo_SNP_site)"
  "read_depth constants_16 homo_SNP_site = 10"
  "supported_reads_count constants_16 homo_SNP_site
     (site_scores constants_16 example_utils homo_SNP_site) ''C'' ''C'' = Inr 10"
  by code_simp+

lemma homo_SNP_site_probabilities:
  "\<forall>g. 0 \<le> site_gt21_probabilities homo_SNP_site g \<and> site_gt21_probabilities homo_SNP_site g \<le> 1"
  "\<forall>g. 0 \<le> site_genotype_probabilities homo_SNP_site g \<and> site_genotype_probabilities homo_SNP_site g \<le> 1"
  by (simp_all add: homo_SNP_site_def)

lemma homo_SNP_site_record:
  "\<exists>q. Output_site constants_16 example_utils default_args no_alignments homo_SNP_site =
     Record_line \<lparr> CHROM = ''chr1'', POS = 100, REF = ''C'', ALT = ''C'', QUAL = q,
       FILTER = ''.'', INFO = [], GT = ''1/1'', GQ = q, DP = 10, AF = 1 \<rparr>"
proof -
  obtain q where q: "quality_score_from example_utils ''C'' ''C'' ''1/1''
      (site_gt21_probabilities homo_SNP_site) (site_genotype_probabilities homo_SNP_site) = Inr q"
    using quality_score_from_Inr [OF homo_SNP_site_probabilities] by blast
  have "Output_site constants_16 example_utils default_args no_alignments homo_SNP_site =
     Record_line \<lparr> CHROM = site_chromosome homo_SNP_site, POS = site_position homo_SNP_site,
       REF = ''C'', ALT = ''C'', QUAL = q,
       FILTER = filtration_value_from (qual default_args) q, INFO = info_from constants_16 0,
       GT = ''1/1'', GQ = q, DP = read_depth constants_16 homo_SNP_site,
       AF = allele_frequency 10 (read_depth constants_16 homo_SNP_site) \<rparr>"
    using homo_SNP_site_facts(1,2) _ _ homo_SNP_site_alleles _ _ homo_SNP_site_facts(5) q
    by (rule Output_site_record) (simp_all add: homo_SNP_site_facts)
  moreover have "site_chromosome homo_SNP_site = ''chr1''" "site_position homo_SNP_site = 100"
    "qual default_args = None"
    by (simp_all add: homo_SNP_site_def default_args_def)
  ultimately show ?thesis
    by (simp add: homo_SNP_site_facts filtration_value_from_def
        info_from_def allele_frequency_def)
qed

lemma argmax_less:
  assumes "xs \<noteq> []"
  shows "argmax xs < length xs"
proof -
  let ?r = "strict_max_scan (zip [1..<length xs] (tl xs)) (0, hd xs)"
  have "fst ?r \<in> set [1..<length xs]" if "?r \<in> set (zip [1..<length xs] (tl xs))"
    using that set_zip_leftD [of "fst ?r" "snd ?r" "[1..<length xs]" "tl xs"] by simp
  with strict_max_scan_mem [of "zip [1..<length xs] (tl xs)" "(0, hd xs)"]
  have "fst ?r = 0 \<or> fst ?r \<in> set [1..<length xs]"
    by auto
  with assms show ?thesis by (auto simp: argmax_def)
qed

lemma homo_SNP_bases_from_cases:
  "homo_SNP_bases_from gp \<in>
     {(CHR ''A'', CHR ''A''), (CHR ''C'', CHR ''C''), (CHR ''G'', CHR ''G''), (CHR ''T'', CHR ''T'')}"
proof -
  let ?i = "argmax (map gp [GT21_AA, GT21_CC, GT21_GG, GT21_TT])"
  have "?i < 4" using argmax_less [of "map gp [GT21_AA, GT21_CC, GT21_GG, GT21_TT]"] by simp
  then have "?i = 0 \<or> ?i = 1 \<or> ?i = 2 \<or> ?i = 3" by arith
  then show ?thesis
    unfolding homo_SNP_bases_from_def Let_def
    by (elim disjE) (simp_all add: base_change_label_from_def)
qed

text \<open>
  Claim C10.  When the composer acts on the homozygous-SNP hypothesis (its flag is set and
  the reference flag is not) and the best homozygous pair is the center reference base,
  the alternate allele is the reference allele, and the site is not dropped for it: with
  reads at the center, debug mode off and probabilities in \<open>[0, 1]\<close>, the record is
  written, with genotype \<open>1/1\<close>.
\<close>

theorem homo_SNP_to_reference_base_is_emitted:
  assumes window: "flanking_base_number k < length (site_reference_sequence s)"
    and no_debug: "\<not> debug a"
    and depth: "read_depth k s \<noteq> 0"
    and wins: "is_homo_SNP (site_scores k utils s)" "\<not> is_reference (site_scores k utils s)"
    and best: "[fst (homo_SNP_bases_from (site_gt21_probabilities s))] = center_base k s"
    and probabilities:
      "\<forall>g. 0 \<le> site_gt21_probabilities s g \<and> site_gt21_probabilities s g \<le> 1"
      "\<forall>g. 0 \<le> site_genotype_probabilities s g \<and> site_genotype_probabilities s g \<le> 1"
  shows "\<exists>r. Output_site k utils a src s = Record_line r \<and>
           REF r = center_base k s \<and> ALT r = REF r \<and> GT r = ''1/1''"
proof -
  let ?sc = "site_scores k utils s"
  obtain b where pair: "homo_SNP_bases_from (site_gt21_probabilities s) = (b, b)"
    and b: "b \<in> {CHR ''A'', CHR ''C'', CHR ''G'', CHR ''T''}"
    using homo_SNP_bases_from_cases [of "site_gt21_probabilities s"] by auto
  from best pair have center: "center_base k s = [b]" by simp
  have alleles: "compose_alleles k a src s ?sc = Inr (Alleles [b] [b] ''1/1'' 0)"
    using wins pair center
    by (simp add: compose_alleles_def compose_homo_SNP_def initial_genotype_string_def
        genotype_string_from_def Let_def)
  obtain e1 e2 where ev: "base_evidence k s b Channel_SNP = Inr e1"
      "base_evidence k s b Channel_reference = Inr e2"
    using b by (auto simp: base_evidence_def base2num_def)
  have count: "supported_reads_count k s ?sc [b] [b] = Inr (0 + (e1 + e2))"
    using wins b ev by (auto simp: supported_reads_count_def is_SNP_def Let_def)
  obtain q where q: "quality_score_from utils [b] [b] ''1/1'' (site_gt21_probabilities s)
      (site_genotype_probabilities s) = Inr q"
    using quality_score_from_Inr [OF probabilities] by blast
  have "Output_site k utils a src s =
           Record_line \<lparr> CHROM = site_chromosome s, POS = site_position s, REF = [b], ALT = [b],
             QUAL = q, FILTER = filtration_value_from (qual a) q, INFO = info_from k 0,
             GT = ''1/1'', GQ = q, DP = read_depth k s,
             AF = allele_frequency (0 + (e1 + e2)) (read_depth k s) \<rparr>"
    using window no_debug _ depth alleles _ _ count q
    by (rule Output_site_record) (simp_all add: wins)
  with center show ?thesis by simp
qed

theorem homo_SNP_to_reference_base_witness:
  "is_homo_SNP (site_scores constants_16 example_utils homo_SNP_site) \<and>
   \<not> is_reference (site_scores constants_16 example_utils homo_SNP_site) \<and>
   homo_SNP_bases_from (site_gt21_probabilities homo_SNP_site) = (CHR ''C'', CHR ''C'') \<and>
   center_base constants_16 homo_SNP_site = ''C'' \<and>
   (\<exists>r. Output_site constants_16 example_utils default_args no_alignments homo_SNP_site
           = Record_line r \<and> REF r = ''C'' \<and> ALT r = ''C'' \<and> GT r = ''1/1'')"
proof -
  have wins: "is_homo_SNP (site_scores constants_16 example_utils homo_SNP_site)"
    "\<not> is_reference (site_scores constants_16 example_utils homo_SNP_site)"
    by code_simp+
  have pair: "homo_SNP_bases_from (site_gt21_probabilities homo_SNP_site) = (CHR ''C'', CHR ''C'')"
    by code_simp
  have center: "center_base constants_16 homo_SNP_site = ''C''"
    by code_simp
  have best: "[fst (homo_SNP_bases_from (site_gt21_probabilities homo_SNP_site))]
      = center_base constants_16 homo_SNP_site"
    by (simp add: pair center)
  have depth: "read_depth constants_16 homo_SNP_site \<noteq> 0"
    by (simp add: homo_SNP_site_facts)
  from homo_SNP_to_reference_base_is_emitted [OF homo_SNP_site_facts(1,2) depth wins best
      homo_SNP_site_probabilities, of no_alignments]
  show ?thesis using wins pair center by auto
qed

subsection \<open>Allele frequency\<close>

lemma tmp_of_one_half: "tmp_of_probability (1 / 2) = 33"
  using epsilon_pos by (simp add: tmp_of_probability_def)

lemma quality_of_one_half: "quality_of_probability (1 / 2) = Inr 1089"
  using quality_of_probability_Inr [of "1 / 2"] by (simp add: tmp_of_one_half)

lemma short_insertion_quality:
  "quality_score_from example_utils ''C'' ''CA'' ''1/1'' insertion_gt21_probabilities
     homo_variant_surely = Inr 1089"
  by (simp add: quality_score_from_def Let_def digit_value_def example_utils_def
      example_partial_label_from_def example_mix_two_partial_labels_def
      example_base_change_enum_from_def all_GT21_def base_change_label_from_def
      insertion_gt21_probabilities_def homo_variant_surely_def quality_of_one_half)

lemma short_insertion_site_facts:
  "flanking_base_number constants_16 < length (site_reference_sequence short_insertion_site)"
  "\<not> debug default_args"
  "\<not> is_reference (site_scores constants_16 example_utils short_insertion_site)"
  "read_depth constants_16 short_insertion_site = 10"
  "compose_alleles constants_16 default_args no_alignments short_insertion_site
     (site_scores constants_16 example_utils short_insertion_site)
     = Inr (Alleles ''C'' ''CA'' ''1/1'' 0)"
  "supported_reads_count constants_16 short_insertion_site
     (site_scores constants_16 example_utils short_insertion_site) ''C'' ''CA'' = Inr (- 3)"
  by code_simp+

lemma short_insertion_site_fields:
  "site_chromosome short_insertion_site = ''chr1''"
  "site_position short_insertion_site = 100"
  "site_gt21_probabilities short_insertion_site = insertion_gt21_probabilities"
  "site_genotype_probabilities short_insertion_site = homo_variant_surely"
  "qual default_args = None"
  by (simp_all add: short_insertion_site_def default_args_def)

text \<open>
  Claim C5, as the specification words it, fails: at \<open>short_insertion_site\<close> the
  homozygous insertion wins, the insertion channel next to the center sums to \<open>2\<close> and
  the SNP channel to \<open>5\<close>, and the record is written with the allele frequency
  \<open>(2 - 5) / 10\<close>.
\<close>

theorem allele_frequency_counterexample:
  "Output_site constants_16 example_utils default_args no_alignments short_insertion_site =
     Record_line \<lparr> CHROM = ''chr1'', POS = 100, REF = ''C'', ALT = ''CA'', QUAL = 1089,
       FILTER = ''.'', INFO = [], GT = ''1/1'', GQ = 1089, DP = 10, AF = - 3 / 10 \<rparr>"
proof -
  have "Output_site constants_16 example_utils default_args no_alignments short_insertion_site =
     Record_line \<lparr> CHROM = site_chromosome short_insertion_site,
       POS = site_position short_insertion_site, REF = ''C'', ALT = ''CA'', QUAL = 1089,
       FILTER = filtration_value_from (qual default_args) 1089, INFO = info_from constants_16 0,
       GT = ''1/1'', GQ = 1089, DP = read_depth constants_16 short_insertion_site,
       AF = allele_frequency (- 3) (read_depth constants_16 short_insertion_site) \<rparr>"
    using short_insertion_site_facts(1,2) _ _ short_insertion_site_facts(5) _ _
      short_insertion_site_facts(6)
    by (rule Output_site_record)
      (simp_all add: short_insertion_site_facts short_insertion_site_fields short_insertion_quality)
  then show ?thesis
    by (simp add: short_insertion_site_facts short_insertion_site_fields filtration_value_from_def
        info_from_def allele_frequency_def)
qed

text \<open>
  Claim C5, as the source has it.  The allele frequency of a written record is the
  supporting-read count over the depth, replaced by \<open>1\<close> when it exceeds \<open>1\<close>.  So it
  is at most \<open>1\<close>; it is at least \<open>0\<close> when the count is not negative and the depth is
  positive, and there is no clamp from below.
\<close>

theorem allele_frequency_is_clamped_from_above:
  assumes "Output_site k utils a src s = Record_line r"
    and "supported_reads_count k s (site_scores k utils s) (REF r) (ALT r) = Inr supported"
  shows "AF r = (if supported / DP r > 1 then 1 else supported / DP r) \<and> AF r \<le> 1 \<and>
         (0 \<le> supported \<and> 0 < DP r \<longrightarrow> 0 \<le> AF r)"
proof -
  from Output_site_Record_lineD [OF assms(1)] assms(2)
  have af: "AF r = allele_frequency supported (DP r)" and depth: "DP r \<noteq> 0"
    by auto
  then show ?thesis by (auto simp: allele_frequency_def Let_def)
qed

theorem allele_frequency_is_clamped_witness:
  "(\<exists>r. Output_site constants_16 example_utils default_args no_alignments homo_SNP_site
      = Record_line r \<and>
      supported_reads_count constants_16 homo_SNP_site
        (site_scores constants_16 example_utils homo_SNP_site) (REF r) (ALT r) = Inr 10 \<and>
      DP r = 10 \<and> AF r = 1)"
proof -
  obtain r where r: "Output_site constants_16 example_utils default_args no_alignments homo_SNP_site
      = Record_line r" and f: "REF r = ''C''" "ALT r = ''C''" "DP r = 10"
    using homo_SNP_site_record by auto
  have c: "supported_reads_count constants_16 homo_SNP_site
        (site_scores constants_16 example_utils homo_SNP_site) (REF r) (ALT r) = Inr 10"
    by (simp add: f homo_SNP_site_facts)
  from allele_frequency_is_clamped_from_above [OF r c] f have "AF r = 1" by simp
  with r c f show ?thesis by blast
qed

subsection \<open>The length-guess annotation\<close>

lemma compose_insertion_length_guess:
  assumes "compose_insertion k a src s sc gs = Inr (Alleles ref alt gs' lg)"
    and "insertion_bases_from k (site_x s) (insertion_variant_length k s sc) src
           (site_chromosome s) (site_position s) (pysam_for_all_indel_bases a)
         = Inr (bases, n, inferred)"
  shows "lg = (if inferred then n else 0)"
  using assms
  by (auto simp: compose_insertion_def Let_def split: if_splits sum.splits)

lemma compose_deletion_length_guess:
  assumes "compose_deletion k a src s sc gs = Inr (Alleles ref alt gs' lg)"
    and "deletion_bases_from k (site_x s) (deletion_variant_length k s sc) src
           (site_chromosome s) (site_position s) (site_reference_sequence s)
           (pysam_for_all_indel_bases a)
         = Inr (bases, n, inferred)"
  shows "lg = (if inferred then n else 0)"
  using assms
  by (auto simp: compose_deletion_def Let_def split: if_splits sum.splits)

lemma compose_insertion_and_deletion_length_guess:
  assumes "compose_insertion_and_deletion k a src s gs = Inr (Alleles ref alt gs' lg)"
  shows "lg = 0"
  using assms
  by (auto simp: compose_insertion_and_deletion_def Let_def split: if_splits sum.splits prod.splits)

text \<open>
  Claim C8, as the source has it.  Take a written record of a site at which neither the
  reference nor a SNP flag is set.  When the composer acts on the insertion family and
  the recovered bases are marked inferred with length \<open>n\<close>, the record carries
  \<open>LENGUESS = n\<close> exactly when \<open>0 < n < flanking_base_number\<close>; likewise for the deletion
  family.  When it acts on insertion+deletion, the record carries no annotation.
\<close>

theorem length_guess_annotation:
  assumes "Output_site k utils a src s = Record_line r"
    and "\<not> is_reference (site_scores k utils s)" "\<not> is_homo_SNP (site_scores k utils s)"
      "\<not> is_hetero_SNP (site_scores k utils s)"
  shows "(is_insertion (site_scores k utils s) \<and>
          insertion_bases_from k (site_x s)
            (insertion_variant_length k s (site_scores k utils s)) src
            (site_chromosome s) (site_position s) (pysam_for_all_indel_bases a)
            = Inr (inserted, n, True)
          \<longrightarrow> INFO r = (if 0 < n \<and> n < flanking_base_number k then [LENGUESS n] else [])) \<and>
         (\<not> is_insertion (site_scores k utils s) \<and> is_deletion (site_scores k utils s) \<and>
          deletion_bases_from k (site_x s)
            (deletion_variant_length k s (site_scores k utils s)) src
            (site_chromosome s) (site_position s) (site_reference_sequence s)
            (pysam_for_all_indel_bases a)
            = Inr (deleted, m, True)
          \<longrightarrow> INFO r = (if 0 < m \<and> m < flanking_base_number k then [LENGUESS m] else [])) \<and>
         (\<not> is_insertion (site_scores k utils s) \<and> \<not> is_deletion (site_scores k utils s)
          \<longrightarrow> INFO r = [])"
proof -
  let ?sc = "site_scores k utils s"
  from Output_site_Record_lineD [OF assms(1)]
  obtain ref alt gs lg where
    alleles: "compose_alleles k a src s ?sc = Inr (Alleles ref alt gs lg)"
    and info: "INFO r = info_from k lg"
    by auto
  have ins: "INFO r = (if 0 < n \<and> n < flanking_base_number k then [LENGUESS n] else [])"
    if "is_insertion ?sc" and "insertion_bases_from k (site_x s)
            (insertion_variant_length k s ?sc) src
            (site_chromosome s) (site_position s) (pysam_for_all_indel_bases a)
            = Inr (inserted, n, True)"
  proof -
    from alleles assms(2-4) that(1)
    have "compose_insertion k a src s ?sc (initial_genotype_string ?sc)
            = Inr (Alleles ref alt gs lg)"
      by (simp add: compose_alleles_def Let_def)
    from compose_insertion_length_guess [OF this that(2)] info show ?thesis
      by (simp add: info_from_def)
  qed
  have del: "INFO r = (if 0 < m \<and> m < flanking_base_number k then [LENGUESS m] else [])"
    if "\<not> is_insertion ?sc" "is_deletion ?sc" and "deletion_bases_from k (site_x s)
            (deletion_variant_length k s ?sc) src
            (site_chromosome s) (site_position s) (site_reference_sequence s)
            (pysam_for_all_indel_bases a)
            = Inr (deleted, m, True)"
  proof -
    from alleles assms(2-4) that(1,2)
    have "compose_deletion k a src s ?sc (initial_genotype_string ?sc)
            = Inr (Alleles ref alt gs lg)"
      by (simp add: compose_alleles_def Let_def)
    from compose_deletion_length_guess [OF this that(3)] info show ?thesis
      by (simp add: info_from_def)
  qed
  have none: "INFO r = []" if "\<not> is_insertion ?sc" "\<not> is_deletion ?sc"
  proof -
    from alleles assms(2-4) that
    have "lg = 0"
      by (auto simp: compose_alleles_def Let_def split: if_splits
          dest: compose_insertion_and_deletion_length_guess)
    with info show ?thesis by (simp add: info_from_def)
  qed
  from ins del none show ?thesis by blast
qed

lemma long_insertion_recovery:
  "insertion_bases_from constants_16 (site_x long_insertion_site) 16 no_alignments ''chr1'' 100 False
     = Inr (''AAAAAAAAAAAAAAAA'', 16, True)"
  by code_simp

lemma stopped_insertion_recovery:
  "insertion_bases_from constants_16 (site_x stopped_insertion_site) 16 no_alignments ''chr1'' 100 False
     = Inr (''AAAAAAAAAAAAAAA'', 15, True)"
  by code_simp

lemma long_insertion_site_facts:
  "flanking_base_number constants_16 < length (site_reference_sequence long_insertion_site)"
  "\<not> debug default_args"
  "\<not> is_reference (site_scores constants_16 example_utils long_insertion_site)"
  "read_depth constants_16 long_insertion_site = 10"
  "compose_alleles constants_16 default_args no_alignments long_insertion_site
     (site_scores constants_16 example_utils long_insertion_site)
     = Inr (Alleles ''C'' ''CAAAAAAAAAAAAAAAA'' ''1/1'' 16)"
  "supported_reads_count constants_16 long_insertion_site
     (site_scores constants_16 example_utils long_insertion_site) ''C'' ''CAAAAAAAAAAAAAAAA'' = Inr 0"
  by code_simp+

lemma stopped_insertion_site_facts:
  "flanking_base_number constants_16 < length (site_reference_sequence stopped_insertion_site)"
  "\<not> is_reference (site_scores constants_16 example_utils stopped_insertion_site)"
  "\<not> is_homo_SNP (site_scores constants_16 example_utils stopped_insertion_site)"
  "\<not> is_hetero_SNP (site_scores constants_16 example_utils stopped_insertion_site)"
  "is_insertion (site_scores constants_16 example_utils stopped_insertion_site)"
  "insertion_variant_length constants_16 stopped_insertion_site
     (site_scores constants_16 example_utils stopped_insertion_site) = 16"
  "read_depth constants_16 stopped_insertion_site = 10"
  "compose_alleles constants_16 default_args no_alignments stopped_insertion_site
     (site_scores constants_16 example_utils stopped_insertion_site)
     = Inr (Alleles ''C'' ''CAAAAAAAAAAAAAAA'' ''1/1'' 15)"
  "supported_reads_count constants_16 stopped_insertion_site
     (site_scores constants_16 example_utils stopped_insertion_site) ''C'' ''CAAAAAAAAAAAAAAA'' = Inr 0"
  by code_simp+

lemma long_insertion_quality:
  "quality_score_from example_utils ''C'' ''CAAAAAAAAAAAAAAAA'' ''1/1'' insertion_gt21_probabilities
     homo_variant_surely = Inr 1089"
  "quality_score_from example_utils ''C'' ''CAAAAAAAAAAAAAAA'' ''1/1'' insertion_gt21_probabilities
     homo_variant_surely = Inr 1089"
  by (simp_all add: quality_score_from_def Let_def digit_value_def example_utils_def
      example_partial_label_from_def example_mix_two_partial_labels_def
      example_base_change_enum_from_def all_GT21_def base_change_label_from_def
      insertion_gt21_probabilities_def homo_variant_surely_def quality_of_one_half)

lemma long_insertion_site_fields:
  "site_chromosome long_insertion_site = ''chr1''"
  "site_position long_insertion_site = 100"
  "site_gt21_probabilities long_insertion_site = insertion_gt21_probabilities"
  "site_genotype_probabilities long_insertion_site = homo_variant_surely"
  "site_chromosome stopped_insertion_site = ''chr1''"
  "site_position stopped_insertion_site = 100"
  "site_gt21_probabilities stopped_insertion_site = insertion_gt21_probabilities"
  "site_genotype_probabilities stopped_insertion_site = homo_variant_surely"
  "pysam_for_all_indel_bases default_args = False"
  by (simp_all add: long_insertion_site_def stopped_insertion_site_def default_args_def)

lemma info_from_16:
  "info_from constants_16 16 = []" "info_from constants_16 15 = [LENGUESS 15]"
  "flanking_base_number constants_16 = 16"
  by (simp_all add: info_from_def constants_16_def)

text \<open>
  Claim C8, as the specification words it, fails: at \<open>long_insertion_site\<close> the alignment
  file has no read, the inference walk runs to the end of the window and recovers \<open>16\<close>
  bases marked inferred, and the record is written without annotation, because \<open>16\<close> is
  not below the flanking base number.
\<close>

theorem length_guess_counterexample:
  "insertion_bases_from constants_16 (site_x long_insertion_site) 16 no_alignments ''chr1'' 100 False
     = Inr (''AAAAAAAAAAAAAAAA'', 16, True) \<and>
   Output_site constants_16 example_utils default_args no_alignments long_insertion_site =
     Record_line \<lparr> CHROM = ''chr1'', POS = 100, REF = ''C'', ALT = ''CAAAAAAAAAAAAAAAA'',
       QUAL = 1089, FILTER = ''.'', INFO = [], GT = ''1/1'', GQ = 1089, DP = 10, AF = 0 \<rparr>"
proof -
  have "Output_site constants_16 example_utils default_args no_alignments long_insertion_site =
     Record_line \<lparr> CHROM = site_chromosome long_insertion_site,
       POS = site_position long_insertion_site, REF = ''C'', ALT = ''CAAAAAAAAAAAAAAAA'',
       QUAL = 1089, FILTER = filtration_value_from (qual default_args) 1089,
       INFO = info_from constants_16 16,
       GT = ''1/1'', GQ = 1089, DP = read_depth constants_16 long_insertion_site,
       AF = allele_frequency 0 (read_depth constants_16 long_insertion_site) \<rparr>"
    using long_insertion_site_facts(1,2) _ _ long_insertion_site_facts(5) _ _
      long_insertion_site_facts(6)
    by (rule Output_site_record)
      (simp_all add: long_insertion_site_facts long_insertion_site_fields long_insertion_quality)
  then show ?thesis
    by (simp add: long_insertion_site_facts long_insertion_site_fields long_insertion_recovery
        short_insertion_site_fields filtration_value_from_def info_from_16 allele_frequency_def)
qed

theorem length_guess_annotation_witness:
  "\<exists>r. Output_site constants_16 example_utils default_args no_alignments stopped_insertion_site
          = Record_line r \<and>
       insertion_bases_from constants_16 (site_x stopped_insertion_site) 16 no_alignments
          ''chr1'' 100 False = Inr (''AAAAAAAAAAAAAAA'', 15, True) \<and>
       INFO r = [LENGUESS 15]"
proof -
  have "Output_site constants_16 example_utils default_args no_alignments stopped_insertion_site =
     Record_line \<lparr> CHROM = site_chromosome stopped_insertion_site,
       POS = site_position stopped_insertion_site, REF = ''C'', ALT = ''CAAAAAAAAAAAAAAA'',
       QUAL = 1089, FILTER = filtration_value_from (qual default_args) 1089,
       INFO = info_from constants_16 15,
       GT = ''1/1'', GQ = 1089, DP = read_depth constants_16 stopped_insertion_site,
       AF = allele_frequency 0 (read_depth constants_16 stopped_insertion_site) \<rparr>"
    using stopped_insertion_site_facts(1) long_insertion_site_facts(2) _ _
      stopped_insertion_site_facts(8) _ _ stopped_insertion_site_facts(9)
    by (rule Output_site_record)
      (simp_all add: stopped_insertion_site_facts long_insertion_site_fields long_insertion_quality)
  then obtain r where r: "Output_site constants_16 example_utils default_args no_alignments
      stopped_insertion_site = Record_line r"
    by blast
  have rec: "insertion_bases_from constants_16 (site_x stopped_insertion_site)
      (insertion_variant_length constants_16 stopped_insertion_site
         (site_scores constants_16 example_utils stopped_insertion_site)) no_alignments
      (site_chromosome stopped_insertion_site) (site_position stopped_insertion_site)
      (pysam_for_all_indel_bases default_args) = Inr (''AAAAAAAAAAAAAAA'', 15, True)"
    by (simp add: stopped_insertion_site_facts long_insertion_site_fields stopped_insertion_recovery)
  from length_guess_annotation [OF r stopped_insertion_site_facts(2,3,4),
      where inserted = "''AAAAAAAAAAAAAAA''" and n = 15]
    stopped_insertion_site_facts(5) rec
  have "INFO r = [LENGUESS 15]"
    by (simp add: info_from_16)
  with r stopped_insertion_recovery show ?thesis by blast
qed

subsection \<open>Sites that yield no record\<close>



















section \<open>Verification of the allele recovery\<close>




section \<open>Verification of the pipeline orchestrator\<close>

lemma Test_loop_last:
  "Test_loop True b True b2 c gen = (None, [[Emit b c]])"
  by (simp add: Let_def)

lemma Test_loop_overlapped:
  "Test_loop False b (fst (hd (map (Pair False) cs @ [(True, c)])))
     (snd (hd (map (Pair False) cs @ [(True, c)]))) b (tl (map (Pair False) cs @ [(True, c)]))
   = (None, overlapped b (cs @ [c]))"
proof (induction cs arbitrary: b)
  case Nil
  show ?case
    by (subst Test_loop.simps) (simp add: Let_def Test_loop_last del: Test_loop.simps)
next
  case (Cons c1 cs)
  have ne: "map (Pair False) cs @ [(True, c)] \<noteq> []" by simp
  show ?case
    using Cons [of c1] ne
    by (subst Test_loop.simps) (simp add: Let_def del: Test_loop.simps)
qed

lemma predictions_overlapped: "predictions (overlapped b bs) = bs"
  by (induction b bs rule: overlapped.induct) (simp_all add: predictions_def)

lemma emissions_overlapped: "emissions (overlapped b bs) = map (\<lambda>b. (b, b)) (b # bs)"
  by (induction b bs rule: overlapped.induct) (simp_all add: emissions_def)

text \<open>
  Claim C9, on the fork/join structure of \<^verbatim>\<open>Test\<close>.  For a generator that yields the
  batches \<open>bs\<close> with end flag \<open>0\<close> and then the batch \<open>b\<close> with end flag \<open>1\<close>, \<^verbatim>\<open>Test\<close> ends
  without exception and runs the double-buffered schedule.  The classifier is called
  once for each of the \<open>length bs + 1\<close> batches, in their order, and the batches are
  written in their order, each with the results computed for it.
\<close>

theorem Test_is_double_buffered:
  "Test (map (Pair False) bs @ [(True, b)]) = (None, double_buffered (bs @ [b])) \<and>
   predictions (double_buffered (bs @ [b])) = bs @ [b] \<and>
   length (predictions (double_buffered (bs @ [b]))) = length bs + 1 \<and>
   emissions (double_buffered (bs @ [b])) = map (\<lambda>b. (b, b)) (bs @ [b])"
proof -
  have run: "Test (map (Pair False) bs @ [(True, b)]) = (None, double_buffered (bs @ [b]))"
  proof (cases bs)
    case Nil
    then show ?thesis by (simp add: Test_def)
  next
    case (Cons b1 cs)
    have "Test ((False, b1) # map (Pair False) cs @ [(True, b)]) =
        (case Test_loop False b1 (fst (hd (map (Pair False) cs @ [(True, b)])))
                (snd (hd (map (Pair False) cs @ [(True, b)]))) b1
                (tl (map (Pair False) cs @ [(True, b)])) of
           (err, steps) \<Rightarrow> (err, [Predict b1] # steps))"
      by (cases "map (Pair False) cs @ [(True, b)]")
        (simp_all add: Test_def case_prod_beta del: Test_loop.simps)
    with Cons show ?thesis by (simp add: Test_loop_overlapped del: Test_loop.simps)
  qed
  have p: "predictions (double_buffered (bs @ [b])) = bs @ [b]"
    using predictions_overlapped [of "hd (bs @ [b])" "tl (bs @ [b])"]
    by (cases bs) (simp_all add: predictions_def)
  have e: "emissions (double_buffered (bs @ [b])) = map (\<lambda>b. (b, b)) (bs @ [b])"
    using emissions_overlapped [of "hd (bs @ [b])" "tl (bs @ [b])"]
    by (cases bs) (simp_all add: emissions_def)
  from run p e show ?thesis by simp
qed

theorem Test_is_double_buffered_witness:
  "Test [(False, 1::nat), (False, 2), (True, 3)] =
     (None, [[Predict 1], [Predict 2, Emit 1 1], [Predict 3, Emit 2 2], [Emit 3 3]]) \<and>
   predictions [[Predict 1], [Predict 2, Emit 1 1], [Predict 3, Emit 2 2], [Emit (3::nat) 3]]
     = [1, 2, 3] \<and>
   emissions [[Predict 1], [Predict 2, Emit 1 1], [Predict 3, Emit 2 2], [Emit (3::nat) 3]]
     = [(1, 1), (2, 2), (3, 3)]"
  using Test_is_double_buffered [of "[1::nat, 2]" 3] by simp

end
